theory Spec2Isabelle
  imports Main "HOL-Library.Word"
begin

section \<open>Python values, their text rendering, and exceptions\<close>

text \<open>
  The extraction module \<^verbatim>\<open>pdfquad/properties.py\<close> stores Python values in dictionaries
  and renders each one with \<^verbatim>\<open>str()\<close> when a dictionary becomes an element tree.  A
  \<open>scalar\<close> is a value that is only ever rendered; \<open>PyObj\<close> stands for any object whose
  rendering is not computed here (a float, a rational, a list), given by the text
  \<^verbatim>\<open>str()\<close> returns for it.  A \<open>pyval\<close> is a value of the decoder's \<^verbatim>\<open>info\<close> dictionary, on
  which the code tests \<^verbatim>\<open>isinstance(value, bytes)\<close> and \<^verbatim>\<open>isinstance(value, tuple)\<close>.
  A string is a list of characters, each one a code point below 256: the model covers the
  Python strings of this range.
\<close>

type_synonym bytes = "8 word list"

datatype scalar = PyNone | PyInt int | PyStr string | PyObj string

datatype pyval = Scalar scalar | PyBytes bytes | PyTuple "scalar list"

text \<open>Exceptions: the built-in ones this module can raise itself (\<open>IndexError\<close> of a
  tuple index, \<open>KeyError\<close> with its key) and those with a message (\<open>ValueError\<close>,
  \<open>AttributeError\<close>, \<open>TypeError\<close>); \<open>Raised msg\<close> is an exception of any other class thrown by
  a collaborator, with \<open>msg\<close> the text \<^verbatim>\<open>str(e)\<close> gives.\<close>

datatype exn = IndexError | KeyError string | ValueError string | AttributeError string
  | TypeError string | Raised string

definition bind_exn :: "exn + 'a \<Rightarrow> ('a \<Rightarrow> exn + 'b) \<Rightarrow> exn + 'b" where
  "bind_exn m f = (case m of Inl e \<Rightarrow> Inl e | Inr x \<Rightarrow> f x)"

subsection \<open>\<^verbatim>\<open>str()\<close> of an integer, and \<^verbatim>\<open>int()\<close> of a string\<close>

definition digit_char :: "nat \<Rightarrow> char" where
  "digit_char d = char_of (48 + d)"

function str_nat :: "nat \<Rightarrow> string" where
  "str_nat n = (if n < 10 then [digit_char n] else str_nat (n div 10) @ [digit_char (n mod 10)])"
  by pat_completeness auto
termination
  by (relation "measure (\<lambda>n. n)") auto

declare str_nat.simps [simp del]

definition str_int :: "int \<Rightarrow> string" where
  "str_int i = (if i < 0 then CHR ''-'' # str_nat (nat (- i)) else str_nat (nat i))"

definition is_digit :: "char \<Rightarrow> bool" where
  "is_digit c = (48 \<le> (of_char c :: nat) \<and> (of_char c :: nat) \<le> 57)"

definition digit_of :: "char \<Rightarrow> nat" where
  "digit_of c = of_char c - 48"

text \<open>The whitespace of \<^verbatim>\<open>str.strip()\<close> (\<^verbatim>\<open>str.isspace\<close>): below 256 these are the tab, the
  line feed, the vertical tab, the form feed, the carriage return, the four separators
  \<^verbatim>\<open>\x1c\<close> to \<^verbatim>\<open>\x1f\<close>, the space, the next-line character \<^verbatim>\<open>\x85\<close> and the no-break space
  \<^verbatim>\<open>\xa0\<close>.\<close>

definition py_isspace :: "char \<Rightarrow> bool" where
  "py_isspace c = ((of_char c :: nat) \<in> {9, 10, 11, 12, 13, 28, 29, 30, 31, 32, 133, 160})"

definition strip :: "string \<Rightarrow> string" where
  "strip s = rev (dropWhile py_isspace (rev (dropWhile py_isspace s)))"

text \<open>The whitespace \<^verbatim>\<open>int()\<close> removes around a literal: the ASCII blanks of the C locale,
  and the whitespace beyond ASCII, which \<^verbatim>\<open>int()\<close> first turns into spaces.  The four
  separators \<^verbatim>\<open>\x1c\<close> to \<^verbatim>\<open>\x1f\<close> are not among them.\<close>

definition int_isspace :: "char \<Rightarrow> bool" where
  "int_isspace c = ((of_char c :: nat) \<in> {9, 10, 11, 12, 13, 32, 133, 160})"

definition int_strip :: "string \<Rightarrow> string" where
  "int_strip s = rev (dropWhile int_isspace (rev (dropWhile int_isspace s)))"

text \<open>The digits of a base-10 literal: one or more digits, single underscores allowed
  between two digits.  Below 256 the decimal digits are the ASCII ones.\<close>

fun digits_value :: "nat \<Rightarrow> string \<Rightarrow> nat option" where
  "digits_value acc [] = None"
| "digits_value acc [c] = (if is_digit c then Some (10 * acc + digit_of c) else None)"
| "digits_value acc (c # c' # cs) =
     (if is_digit c
      then (if c' = CHR ''_'' then digits_value (10 * acc + digit_of c) cs
            else digits_value (10 * acc + digit_of c) (c' # cs))
      else None)"

subsection \<open>\<^verbatim>\<open>repr()\<close> of a string\<close>

text \<open>\<^verbatim>\<open>repr()\<close> of a string is what \<^verbatim>\<open>str()\<close> of a \<^verbatim>\<open>KeyError\<close> shows of its key, and what the
  message of \<^verbatim>\<open>int()\<close> shows of its argument.  A character that is not printable is
  escaped: below 256 these are the control characters, the no-break space and the soft
  hyphen.\<close>

definition hex_char :: "nat \<Rightarrow> char" where
  "hex_char d = (if d < 10 then char_of (48 + d) else char_of (87 + d))"

definition repr_char :: "char \<Rightarrow> char \<Rightarrow> string" where
  "repr_char q c =
     (if c = q \<or> c = CHR 0x5C then [CHR 0x5C, c]
      else if c = CHR 0x09 then [CHR 0x5C, CHR ''t'']
      else if c = CHR 0x0A then [CHR 0x5C, CHR ''n'']
      else if c = CHR 0x0D then [CHR 0x5C, CHR ''r'']
      else if (of_char c :: nat) < 32 \<or> (127 \<le> (of_char c :: nat) \<and> (of_char c :: nat) \<le> 160)
              \<or> (of_char c :: nat) = 173
        then [CHR 0x5C, CHR ''x'', hex_char (of_char c div 16), hex_char (of_char c mod 16)]
      else [c])"

definition py_repr :: "string \<Rightarrow> string" where
  "py_repr s =
     (let q = (if CHR 0x27 \<in> set s \<and> CHR 0x22 \<notin> set s then CHR 0x22 else CHR 0x27)
      in q # concat (map (repr_char q) s) @ [q])"

text \<open>\<^verbatim>\<open>int(s)\<close>: surrounding whitespace, an optional sign, the digits; \<^verbatim>\<open>ValueError\<close>
  otherwise.\<close>

definition int_error :: "string \<Rightarrow> exn" where
  "int_error s = ValueError (''invalid literal for int() with base 10: '' @ py_repr s)"

definition py_int :: "string \<Rightarrow> exn + int" where
  "py_int s =
     (case int_strip s of
        [] \<Rightarrow> Inl (int_error s)
      | c # cs \<Rightarrow>
          (if c = CHR ''-'' then
             (case digits_value 0 cs of None \<Rightarrow> Inl (int_error s) | Some n \<Rightarrow> Inr (- int n))
           else if c = CHR ''+'' then
             (case digits_value 0 cs of None \<Rightarrow> Inl (int_error s) | Some n \<Rightarrow> Inr (int n))
           else
             (case digits_value 0 (c # cs) of None \<Rightarrow> Inl (int_error s) | Some n \<Rightarrow> Inr (int n))))"

subsection \<open>\<^verbatim>\<open>str()\<close> of a value and of an exception\<close>

fun str :: "scalar \<Rightarrow> string" where
  "str PyNone = ''None''"
| "str (PyInt i) = str_int i"
| "str (PyStr s) = s"
| "str (PyObj s) = s"

fun exn_str :: "exn \<Rightarrow> string" where
  "exn_str IndexError = ''tuple index out of range''"
| "exn_str (KeyError k) = py_repr k"
| "exn_str (ValueError msg) = msg"
| "exn_str (AttributeError msg) = msg"
| "exn_str (TypeError msg) = msg"
| "exn_str (Raised msg) = msg"

section \<open>Ordered dictionaries and tuples\<close>

text \<open>A Python dictionary keeps its keys in insertion order; assigning to a key that is
  present replaces the value where the key stands.\<close>

fun setitem :: "('k \<times> 'v) list \<Rightarrow> 'k \<Rightarrow> 'v \<Rightarrow> ('k \<times> 'v) list" where
  "setitem [] k v = [(k, v)]"
| "setitem ((k', v') # d) k v = (if k' = k then (k, v) # d else (k', v') # setitem d k v)"

definition getitem :: "(string \<times> 'v) list \<Rightarrow> string \<Rightarrow> exn + 'v" where
  "getitem d k = (case map_of d k of None \<Rightarrow> Inl (KeyError k) | Some v \<Rightarrow> Inr v)"

text \<open>Indexing a tuple with a constant index.\<close>

definition tuple_item :: "'a list \<Rightarrow> nat \<Rightarrow> exn + 'a" where
  "tuple_item t i = (if i < length t then Inr (t ! i) else Inl IndexError)"

section \<open>Bits per component\<close>

text \<open>The decoded image, as far as the module reads it: \<^verbatim>\<open>im.format\<close>, \<^verbatim>\<open>im.size\<close>,
  \<^verbatim>\<open>im.mode\<close>, \<^verbatim>\<open>im.getbands()\<close> and \<^verbatim>\<open>im.info\<close>.\<close>

record pil_image =
  im_format :: scalar
  im_size :: "int \<times> int"
  im_mode :: string
  im_getbands :: "string list"
  im_info :: "(string \<times> pyval) list"

definition mode_to_bpp :: "(string \<times> int) list" where
  "mode_to_bpp =
     [(''1'', 1), (''L'', 8), (''P'', 8), (''RGB'', 24), (''RGBA'', 32), (''CMYK'', 32),
      (''YCbCr'', 24), (''LAB'', 24), (''HSV'', 24), (''I'', 32), (''F'', 32)]"

text \<open>\<^verbatim>\<open>int(a / b)\<close>: the quotient cut towards zero.  The division is a floating-point
  one in the source; on the table's values (at most 32) it is exact enough for the cut.\<close>

definition int_truediv :: "int \<Rightarrow> int \<Rightarrow> int" where
  "int_truediv a b = sgn a * sgn b * (\<bar>a\<bar> div \<bar>b\<bar>)"

text \<open>Every value of the table is an \<^verbatim>\<open>int\<close>, so the test
  \<^verbatim>\<open>isinstance(bitsPerPixel, int)\<close> is true whenever it is reached; a mode that is not a key
  of the table raises \<^verbatim>\<open>KeyError\<close> at the lookup.\<close>

definition getBPC :: "pil_image \<Rightarrow> exn + int" where
  "getBPC img =
     bind_exn (getitem mode_to_bpp (im_mode img)) (\<lambda>bitsPerPixel.
       let noComponents = int (length (im_getbands img)) in
       Inr (if noComponents \<noteq> 0 \<and> True then int_truediv bitsPerPixel noComponents
            else - 9999))"

section \<open>The collaborators\<close>

text \<open>
  The libraries the module calls are parameters of the model.  Each call that can throw
  returns an exception or a value.  A document handle carries what \<^verbatim>\<open>pymupdf\<close> answers for
  it: \<^verbatim>\<open>authenticate\<close>, \<^verbatim>\<open>page_count\<close>, \<^verbatim>\<open>metadata\<close>, \<^verbatim>\<open>pdf_catalog()\<close>, \<^verbatim>\<open>xref_get_key\<close>,
  \<^verbatim>\<open>get_sigflags()\<close>, the pages that iterating the document yields, and \<^verbatim>\<open>xref_stream_raw\<close>.
  A page carries the answer of \<^verbatim>\<open>get_images(full=False)\<close>, a list of tuples.  An ICC profile
  carries what \<^verbatim>\<open>ImageCms.getProfileName\<close> and \<^verbatim>\<open>ImageCms.getProfileDescription\<close> answer for it.
\<close>

record page =
  get_images :: "exn + scalar list list"

record document =
  authenticate :: "string \<Rightarrow> exn + int"
  page_count :: int
  metadata :: "(string \<times> scalar) list"
  pdf_catalog :: int
  xref_get_key :: "int \<Rightarrow> string \<Rightarrow> string \<times> string"
  get_sigflags :: int
  pages :: "page list"
  xref_stream_raw :: "int \<Rightarrow> exn + bytes"

record icc_profile =
  getProfileName :: "exn + string"
  getProfileDescription :: "exn + string"

text \<open>\<open>Image_open\<close> is \<^verbatim>\<open>PIL.Image.open(io.BytesIO(stream))\<close> followed by \<^verbatim>\<open>im.load()\<close>;
  \<open>ImageCmsProfile\<close> is \<^verbatim>\<open>ImageCms.ImageCmsProfile(io.BytesIO(icc))\<close>;
  \<open>computeJPEGQuality\<close> returns the triple of quality, root mean square error and
  normalised squared error.

  The element tree is \<^verbatim>\<open>lxml\<close>'s.  \<^verbatim>\<open>etree.Element(name)\<close>, \<^verbatim>\<open>etree.SubElement(parent, name)\<close>
  and the assignment \<^verbatim>\<open>elt.attrib[name] = value\<close> check the name and raise \<^verbatim>\<open>ValueError\<close> for
  one that is not an XML name (a blank, a colon, an empty name); which names pass depends on
  namespaces and on the library's XML tables, so the answer is a parameter:
  \<open>Element_raises name\<close> is the exception that creating an element of that name raises, if
  it raises, and \<open>attrib_raises name\<close> that of setting an attribute of that name.
\<close>

record env =
  os_path_getsize :: "string \<Rightarrow> exn + int"
  pymupdf_open :: "string \<Rightarrow> exn + document"
  Image_open :: "bytes \<Rightarrow> exn + pil_image"
  computeJPEGQuality :: "pil_image \<Rightarrow> exn + scalar \<times> scalar \<times> scalar"
  ImageCmsProfile :: "pyval \<Rightarrow> exn + icc_profile"
  Element_raises :: "string \<Rightarrow> exn option"
  attrib_raises :: "string \<Rightarrow> exn option"

text \<open>A call of the module returns a value or raises, and leaves the warnings it logged,
  in order.\<close>

type_synonym 'a io = "(exn + 'a) \<times> string list"

section \<open>Element trees\<close>

text \<open>An \<^verbatim>\<open>lxml.etree\<close> element: its tag, its attributes, its text and its children in
  order.\<close>

datatype elt = Elt (tag: string) (attrib: "(string \<times> string) list") (etext: "string option")
  (children: "elt list")

text \<open>The text of an element and the value of an attribute must be XML compatible: \<^verbatim>\<open>lxml\<close>
  raises \<^verbatim>\<open>ValueError\<close> for a string with a NUL or with a control character other than the
  tab, the line feed and the carriage return.\<close>

definition xml_char :: "char \<Rightarrow> bool" where
  "xml_char c = ((of_char c :: nat) \<in> {9, 10, 13} \<or> 32 \<le> (of_char c :: nat))"

definition xml_compatible :: "string \<Rightarrow> bool" where
  "xml_compatible s = list_all xml_char s"

definition incompatible :: exn where
  "incompatible = ValueError
     ''All strings must be XML compatible: Unicode or ASCII, no NULL bytes or control characters''"

definition Element :: "env \<Rightarrow> string \<Rightarrow> exn + elt" where
  "Element env name =
     (case Element_raises env name of Some e \<Rightarrow> Inl e | None \<Rightarrow> Inr (Elt name [] None []))"

definition set_text :: "elt \<Rightarrow> string \<Rightarrow> exn + elt" where
  "set_text e s =
     (if xml_compatible s then Inr (Elt (tag e) (attrib e) (Some s) (children e))
      else Inl incompatible)"

definition set_attrib :: "env \<Rightarrow> elt \<Rightarrow> string \<Rightarrow> string \<Rightarrow> exn + elt" where
  "set_attrib env e name v =
     (case attrib_raises env name of
        Some err \<Rightarrow> Inl err
      | None \<Rightarrow>
          (if xml_compatible v then Inr (Elt (tag e) (setitem (attrib e) name v) (etext e) (children e))
           else Inl incompatible))"

definition append :: "elt \<Rightarrow> elt \<Rightarrow> elt" where
  "append e child = Elt (tag e) (attrib e) (etext e) (children e @ [child])"

text \<open>\<^verbatim>\<open>elt.find(name)\<close>: the first child with that tag.\<close>

definition find_child :: "elt \<Rightarrow> string \<Rightarrow> elt option" where
  "find_child e name = find (\<lambda>c. tag c = name) (children e)"

text \<open>The loop of \<open>dictionaryToElt\<close> over the items of the dictionary, and the function.\<close>

fun items_loop :: "env \<Rightarrow> elt \<Rightarrow> (string \<times> scalar) list \<Rightarrow> exn + elt" where
  "items_loop env elt [] = Inr elt"
| "items_loop env elt ((key, value) # items) =
     (case bind_exn (Element env key) (\<lambda>child. set_text child (str value)) of
        Inl e \<Rightarrow> Inl e
      | Inr child \<Rightarrow> items_loop env (append elt child) items)"

definition dictionaryToElt :: "env \<Rightarrow> string \<Rightarrow> (string \<times> scalar) list \<Rightarrow> exn + elt" where
  "dictionaryToElt env name dictionary =
     bind_exn (Element env name) (\<lambda>elt. items_loop env elt dictionary)"

text \<open>\<^verbatim>\<open>ex = etree.SubElement(parent, 'exception'); ex.text = str(e)\<close>, as every handler of
  the module starts.\<close>

definition SubElement_exception :: "env \<Rightarrow> elt \<Rightarrow> exn \<Rightarrow> exn + elt" where
  "SubElement_exception env parent e =
     bind_exn (Element env ''exception'') (\<lambda>ex.
     bind_exn (set_text ex (exn_str e)) (\<lambda>ex. Inr (append parent ex)))"

section \<open>Image dictionary properties\<close>

definition getImageDictProperties :: "env \<Rightarrow> scalar list \<Rightarrow> int \<Rightarrow> exn + elt" where
  "getImageDictProperties env img pageNo =
     bind_exn (tuple_item img 0) (\<lambda>v0.
     bind_exn (tuple_item img 2) (\<lambda>v2.
     bind_exn (tuple_item img 3) (\<lambda>v3.
     bind_exn (tuple_item img 4) (\<lambda>v4.
     bind_exn (tuple_item img 5) (\<lambda>v5.
     bind_exn (tuple_item img 6) (\<lambda>v6.
     bind_exn (tuple_item img 8) (\<lambda>v8.
       let propsDict = [];
           propsDict = setitem propsDict ''xref'' v0;
           propsDict = setitem propsDict ''width'' v2;
           propsDict = setitem propsDict ''height'' v3;
           propsDict = setitem propsDict ''bpc'' v4;
           propsDict = setitem propsDict ''colorspace'' v5;
           propsDict = setitem propsDict ''altcolorspace'' v6;
           propsDict = setitem propsDict ''filter'' v8
       in dictionaryToElt env ''dict'' propsDict)))))))"

section \<open>Image stream properties\<close>

text \<open>The warning a handler of \<open>getImageStreamProperties\<close> logs: the page number, the stage
  that failed, and the message.\<close>

definition stream_warning :: "int \<Rightarrow> string \<Rightarrow> exn \<Rightarrow> string" where
  "stream_warning pageNo stage e =
     ''page '' @ str_int pageNo @ '' while '' @ stage @ '' image stream: '' @ exn_str e"

text \<open>The handlers of the quality estimate and of the ICC profile: the exception element is
  added to the list, then the warning is logged.\<close>

definition stream_except :: "env \<Rightarrow> int \<Rightarrow> string \<Rightarrow> elt \<Rightarrow> exn \<Rightarrow> elt io" where
  "stream_except env pageNo stage exceptionsStreamElt e =
     (case SubElement_exception env exceptionsStreamElt e of
        Inl err \<Rightarrow> (Inl err, [])
      | Inr exceptionsStreamElt \<Rightarrow> (Inr exceptionsStreamElt, [stream_warning pageNo stage e]))"

text \<open>Lines 230 to 240.  The body of the \<^verbatim>\<open>try\<close> block leaves the dictionary, and the
  exception it raised, if it raised.\<close>

definition jpeg_try :: "env \<Rightarrow> pil_image \<Rightarrow> (string \<times> scalar) list
    \<Rightarrow> (string \<times> scalar) list \<times> exn option" where
  "jpeg_try env im propsStream =
     (case computeJPEGQuality env im of
        Inr (quality, rmsError, nse) \<Rightarrow>
          (let propsStream = setitem propsStream ''JPEGQuality'' quality;
               propsStream = setitem propsStream ''NSE_JPEGQuality'' nse
           in (propsStream, None))
      | Inl e \<Rightarrow> (propsStream, Some e))"

definition jpeg_quality_block ::
  "env \<Rightarrow> pil_image \<Rightarrow> int \<Rightarrow> (string \<times> scalar) list \<Rightarrow> elt
    \<Rightarrow> ((string \<times> scalar) list \<times> elt) io" where
  "jpeg_quality_block env im pageNo propsStream exceptionsStreamElt =
     (if im_format im = PyStr ''JPEG'' then
        (case jpeg_try env im propsStream of
           (propsStream, None) \<Rightarrow> (Inr (propsStream, exceptionsStreamElt), [])
         | (propsStream, Some e) \<Rightarrow>
             (case stream_except env pageNo ''estimating JPEG quality from'' exceptionsStreamElt e of
                (Inl err, lg) \<Rightarrow> (Inl err, lg)
              | (Inr exceptionsStreamElt, lg) \<Rightarrow> (Inr (propsStream, exceptionsStreamElt), lg)))
      else (Inr (propsStream, exceptionsStreamElt), []))"

text \<open>Lines 242 to 255: the loop over \<^verbatim>\<open>im.info.items()\<close>.\<close>

fun merge_info :: "(string \<times> scalar) list \<Rightarrow> (string \<times> pyval) list
    \<Rightarrow> exn + (string \<times> scalar) list" where
  "merge_info propsStream [] = Inr propsStream"
| "merge_info propsStream ((key, PyBytes b) # items) =
     merge_info (setitem propsStream key (PyStr ''bytestream'')) items"
| "merge_info propsStream ((key, PyTuple t) # items) =
     (if key = ''dpi'' then
        (case bind_exn (tuple_item t 0) (\<lambda>x. bind_exn (tuple_item t 1) (\<lambda>y. Inr (x, y))) of
           Inl e \<Rightarrow> Inl e
         | Inr (x, y) \<Rightarrow> merge_info (setitem (setitem propsStream ''ppi_x'' x) ''ppi_y'' y) items)
      else if key = ''jfif_density'' then
        (case bind_exn (tuple_item t 0) (\<lambda>x. bind_exn (tuple_item t 1) (\<lambda>y. Inr (x, y))) of
           Inl e \<Rightarrow> Inl e
         | Inr (x, y) \<Rightarrow>
             merge_info (setitem (setitem propsStream ''jfif_density_x'' x) ''jfif_density_y'' y)
               items)
      else merge_info propsStream items)"
| "merge_info propsStream ((key, Scalar v) # items) =
     merge_info (setitem propsStream key v) items"

text \<open>Lines 257 to 266: the ICC profile name and description.\<close>

definition icc_try :: "env \<Rightarrow> pil_image \<Rightarrow> (string \<times> scalar) list
    \<Rightarrow> (string \<times> scalar) list \<times> exn option" where
  "icc_try env im propsStream =
     (case getitem (im_info im) ''icc_profile'' of
        Inl e \<Rightarrow> (propsStream, Some e)
      | Inr icc \<Rightarrow>
          (case ImageCmsProfile env icc of
             Inl e \<Rightarrow> (propsStream, Some e)
           | Inr iccProfile \<Rightarrow>
               (case getProfileName iccProfile of
                  Inl e \<Rightarrow> (propsStream, Some e)
                | Inr name \<Rightarrow>
                    (let propsStream = setitem propsStream ''icc_profile_name'' (PyStr (strip name))
                     in case getProfileDescription iccProfile of
                          Inl e \<Rightarrow> (propsStream, Some e)
                        | Inr description \<Rightarrow>
                            (setitem propsStream ''icc_profile_description''
                               (PyStr (strip description)), None)))))"

definition icc_block ::
  "env \<Rightarrow> pil_image \<Rightarrow> int \<Rightarrow> (string \<times> scalar) list \<Rightarrow> elt
    \<Rightarrow> ((string \<times> scalar) list \<times> elt) io" where
  "icc_block env im pageNo propsStream exceptionsStreamElt =
     (case icc_try env im propsStream of
        (propsStream, None) \<Rightarrow> (Inr (propsStream, exceptionsStreamElt), [])
      | (propsStream, Some e) \<Rightarrow>
          (case stream_except env pageNo ''extracting ICC profile properties from''
                  exceptionsStreamElt e of
             (Inl err, lg) \<Rightarrow> (Inl err, lg)
           | (Inr exceptionsStreamElt, lg) \<Rightarrow> (Inr (propsStream, exceptionsStreamElt), lg)))"

definition getImageStreamProperties :: "env \<Rightarrow> bytes \<Rightarrow> int \<Rightarrow> elt io" where
  "getImageStreamProperties env stream pageNo =
     (let propsStream = [] in
      case Element env ''exceptions'' of
        Inl err \<Rightarrow> (Inl err, [])
      | Inr exceptionsStreamElt \<Rightarrow>
     (case Image_open env stream of
        Inl e \<Rightarrow>
          (case bind_exn (SubElement_exception env exceptionsStreamElt e) (\<lambda>exceptionsStreamElt.
                bind_exn (dictionaryToElt env ''stream'' propsStream) (\<lambda>propsStreamElt.
                  Inr (append propsStreamElt exceptionsStreamElt))) of
             Inl err \<Rightarrow> (Inl err, [])
           | Inr propsStreamElt \<Rightarrow> (Inr propsStreamElt, [stream_warning pageNo ''reading'' e]))
      | Inr im \<Rightarrow>
          (let propsStream = setitem propsStream ''format'' (im_format im);
               width = fst (im_size im);
               height = snd (im_size im);
               propsStream = setitem propsStream ''width'' (PyInt width);
               propsStream = setitem propsStream ''height'' (PyInt height);
               propsStream = setitem propsStream ''mode'' (PyStr (im_mode im));
               noComponents = int (length (im_getbands im));
               propsStream = setitem propsStream ''components'' (PyInt noComponents)
           in
           case getBPC im of
             Inl e \<Rightarrow> (Inl e, [])
           | Inr bitsPerComponent \<Rightarrow>
               (let propsStream = setitem propsStream ''bpc'' (PyInt bitsPerComponent) in
                case jpeg_quality_block env im pageNo propsStream exceptionsStreamElt of
                  (Inl err, log1) \<Rightarrow> (Inl err, log1)
                | (Inr (propsStream, exceptionsStreamElt), log1) \<Rightarrow>
                    (case merge_info propsStream (im_info im) of
                       Inl e \<Rightarrow> (Inl e, log1)
                     | Inr propsStream \<Rightarrow>
                         (case icc_block env im pageNo propsStream exceptionsStreamElt of
                            (Inl err, log2) \<Rightarrow> (Inl err, log1 @ log2)
                          | (Inr (propsStream, exceptionsStreamElt), log2) \<Rightarrow>
                              (case dictionaryToElt env ''stream'' propsStream of
                                 Inl err \<Rightarrow> (Inl err, log1 @ log2)
                               | Inr propsStreamElt \<Rightarrow>
                                   (Inr (append propsStreamElt exceptionsStreamElt),
                                    log1 @ log2))))))))"

section \<open>Images, pages and the document\<close>

definition getImageProperties :: "env \<Rightarrow> document \<Rightarrow> scalar list \<Rightarrow> int \<Rightarrow> elt io" where
  "getImageProperties env doc img pageNo =
     (case Element env ''image'' of
        Inl err \<Rightarrow> (Inl err, [])
      | Inr imageElt \<Rightarrow>
     (case getImageDictProperties env img pageNo of
        Inl e \<Rightarrow> (Inl e, [])
      | Inr propsDictElt \<Rightarrow>
          (case bind_exn
                  (case find_child propsDictElt ''xref'' of
                     None \<Rightarrow> Inl (AttributeError
                       (CHR 0x27 # ''NoneType'' @ CHR 0x27 # '' object has no attribute ''
                          @ CHR 0x27 # ''text'' @ [CHR 0x27]))
                   | Some x \<Rightarrow> Inr (etext x))
                  (\<lambda>t. case t of
                     None \<Rightarrow> Inl (TypeError
                       (''int() argument must be a string, a bytes-like object or a real number, not ''
                          @ CHR 0x27 # ''NoneType'' @ [CHR 0x27]))
                   | Some s \<Rightarrow> py_int s) of
             Inl e \<Rightarrow> (Inl e, [])
           | Inr xref \<Rightarrow>
               (case xref_stream_raw doc xref of
                  Inl e \<Rightarrow> (Inl e, [])
                | Inr stream \<Rightarrow>
                    (case getImageStreamProperties env stream pageNo of
                       (Inl e, lg) \<Rightarrow> (Inl e, lg)
                     | (Inr propsStreamElt, lg) \<Rightarrow>
                         (let imageElt = append imageElt propsDictElt;
                              imageElt = append imageElt propsStreamElt
                          in (Inr imageElt, lg)))))))"

text \<open>The loop of \<open>getPageProperties\<close> over the page's images.\<close>

fun images_loop :: "env \<Rightarrow> document \<Rightarrow> int \<Rightarrow> elt \<Rightarrow> scalar list list \<Rightarrow> elt io" where
  "images_loop env doc pageNo pageElt [] = (Inr pageElt, [])"
| "images_loop env doc pageNo pageElt (img # images) =
     (case getImageProperties env doc img pageNo of
        (Inl e, lg) \<Rightarrow> (Inl e, lg)
      | (Inr imageElt, lg) \<Rightarrow>
          (case images_loop env doc pageNo (append pageElt imageElt) images of
             (r, lg') \<Rightarrow> (r, lg @ lg')))"

definition getPageProperties :: "env \<Rightarrow> document \<Rightarrow> page \<Rightarrow> int \<Rightarrow> elt io" where
  "getPageProperties env doc page pageNo =
     (case bind_exn (Element env ''page'') (\<lambda>pageElt.
             set_attrib env pageElt ''number'' (str_int pageNo)) of
        Inl err \<Rightarrow> (Inl err, [])
      | Inr pageElt \<Rightarrow>
          (case get_images page of
             Inl e \<Rightarrow> (Inl e, [])
           | Inr images \<Rightarrow> images_loop env doc pageNo pageElt images))"

text \<open>The loop of \<open>getProperties\<close> over the document's pages.\<close>

fun pages_loop :: "env \<Rightarrow> document \<Rightarrow> int \<Rightarrow> elt \<Rightarrow> page list \<Rightarrow> elt io" where
  "pages_loop env doc pageNo pagesElt [] = (Inr pagesElt, [])"
| "pages_loop env doc pageNo pagesElt (page # rest) =
     (case getPageProperties env doc page pageNo of
        (Inl e, lg) \<Rightarrow> (Inl e, lg)
      | (Inr pageElt, lg) \<Rightarrow>
          (case pages_loop env doc (pageNo + 1) (append pagesElt pageElt) rest of
             (r, lg') \<Rightarrow> (r, lg @ lg')))"

text \<open>\<open>getProperties\<close>.  Lines 62 to 78 create the elements of the path and of the size;
  lines 79 to 89 are the body of the \<^verbatim>\<open>try\<close> block, lines 90 to 95 its handler; lines 97 to
  138 extract the properties of the open document.\<close>

definition getProperties :: "env \<Rightarrow> string \<Rightarrow> elt io" where
  "getProperties env PDF =
     (case bind_exn (Element env ''properties'') (\<lambda>propertiesElt.
           bind_exn (Element env ''exceptions'') (\<lambda>exceptionsFileElt.
           bind_exn (Element env ''filePath'') (\<lambda>fPathElt.
           bind_exn (set_text fPathElt PDF) (\<lambda>fPathElt.
           bind_exn (Element env ''fileSize'') (\<lambda>fSizeElt.
           bind_exn (os_path_getsize env PDF) (\<lambda>fileSize.
           bind_exn (set_text fSizeElt (str_int fileSize)) (\<lambda>fSizeElt.
           (let propertiesElt = append propertiesElt fPathElt;
                propertiesElt = append propertiesElt fSizeElt
            in
           bind_exn (Element env ''openPassword'') (\<lambda>openPasswordElt.
             Inr (propertiesElt, exceptionsFileElt, openPasswordElt)))))))))) of
        Inl e \<Rightarrow> (Inl e, [])
      | Inr (propertiesElt, exceptionsFileElt, openPasswordElt) \<Rightarrow>
          (case bind_exn (pymupdf_open env PDF) (\<lambda>doc.
                bind_exn (authenticate doc ''whatever'') (\<lambda>rc.
                  if rc = 0 then
                    bind_exn (set_text openPasswordElt ''True'') (\<lambda>openPasswordElt.
                      Inr (doc, rc, append propertiesElt openPasswordElt))
                  else
                    bind_exn (set_text openPasswordElt ''False'') (\<lambda>openPasswordElt.
                      Inr (doc, rc, append propertiesElt openPasswordElt)))) of
             Inl e \<Rightarrow>
               (case SubElement_exception env exceptionsFileElt e of
                  Inl err \<Rightarrow> (Inl err, [])
                | Inr exceptionsFileElt \<Rightarrow>
                    (Inr (append propertiesElt exceptionsFileElt),
                     [''while opening PDF: '' @ exn_str e]))
           | Inr (doc, rc, propertiesElt) \<Rightarrow>
               (if rc = 0 then (Inr propertiesElt, [''PDF has open password''])
                else
                  (let pages_count = page_count doc in
                   case bind_exn (dictionaryToElt env ''meta'' (metadata doc)) (\<lambda>metadataElt.
                        (let catXref = pdf_catalog doc;
                             pageMode = xref_get_key doc catXref ''PageMode''
                         in
                         bind_exn (Element env ''PageMode'') (\<lambda>pageModeElt.
                         bind_exn (if fst pageMode = ''null''
                                   then set_text pageModeElt ''undefined''
                                   else set_text pageModeElt (snd pageMode)) (\<lambda>pageModeElt.
                         (let signatureFlag = get_sigflags doc in
                         bind_exn (Element env ''signatureFlag'') (\<lambda>signatureFlagElt.
                         bind_exn (set_text signatureFlagElt (str_int signatureFlag))
                           (\<lambda>signatureFlagElt.
                         bind_exn (Element env ''pages'') (\<lambda>pagesElt.
                           Inr (metadataElt, pageModeElt, signatureFlagElt, pagesElt))))))))) of
                     Inl e \<Rightarrow> (Inl e, [])
                   | Inr (metadataElt, pageModeElt, signatureFlagElt, pagesElt) \<Rightarrow>
                       (case pages_loop env doc 1 pagesElt (pages doc) of
                          (Inl e, lg) \<Rightarrow> (Inl e, lg)
                        | (Inr pagesElt, lg) \<Rightarrow>
                            (let propertiesElt = append propertiesElt metadataElt;
                                 propertiesElt = append propertiesElt pageModeElt;
                                 propertiesElt = append propertiesElt signatureFlagElt
                             in
                             case bind_exn (Element env ''noPages'') (\<lambda>noPagesElt.
                                    set_text noPagesElt (str_int pages_count)) of
                               Inl e \<Rightarrow> (Inl e, lg)
                             | Inr noPagesElt \<Rightarrow>
                                 (let propertiesElt = append propertiesElt noPagesElt;
                                      propertiesElt = append propertiesElt pagesElt;
                                      propertiesElt = append propertiesElt exceptionsFileElt
                                  in (Inr propertiesElt, lg))))))))"

section \<open>Notions used to state the properties\<close>

text \<open>A name the element tree accepts; a dictionary entry and an exception whose element
  can be built: the name is accepted and the text is XML compatible.\<close>

definition tag_ok :: "env \<Rightarrow> string \<Rightarrow> bool" where
  "tag_ok env name = (Element_raises env name = None)"

definition leaf_ok :: "env \<Rightarrow> string \<times> scalar \<Rightarrow> bool" where
  "leaf_ok env entry = (tag_ok env (fst entry) \<and> xml_compatible (str (snd entry)))"

definition exception_ok :: "env \<Rightarrow> exn \<Rightarrow> bool" where
  "exception_ok env e = (tag_ok env ''exception'' \<and> xml_compatible (exn_str e))"

text \<open>The element a property, and an exception, is recorded as.\<close>

definition property_leaf :: "string \<times> scalar \<Rightarrow> elt" where
  "property_leaf entry = Elt (fst entry) [] (Some (str (snd entry))) []"

definition exception_leaf :: "exn \<Rightarrow> elt" where
  "exception_leaf e = Elt ''exception'' [] (Some (exn_str e)) []"

text \<open>The seven entries \<open>getImageDictProperties\<close> reads from an image tuple.\<close>

definition dict_props :: "scalar list \<Rightarrow> (string \<times> scalar) list" where
  "dict_props img =
     [(''xref'', img ! 0), (''width'', img ! 2), (''height'', img ! 3), (''bpc'', img ! 4),
      (''colorspace'', img ! 5), (''altcolorspace'', img ! 6), (''filter'', img ! 8)]"

text \<open>The six properties \<open>getImageStreamProperties\<close> records for a decoded image before it
  looks at the format and at the decoder's metadata.\<close>

definition decoded_props :: "pil_image \<Rightarrow> int \<Rightarrow> (string \<times> scalar) list" where
  "decoded_props im bitsPerComponent =
     [(''format'', im_format im), (''width'', PyInt (fst (im_size im))),
      (''height'', PyInt (snd (im_size im))), (''mode'', PyStr (im_mode im)),
      (''components'', PyInt (int (length (im_getbands im)))),
      (''bpc'', PyInt bitsPerComponent)]"

text \<open>The failures the collaborators answer with for one raw stream, in the order of the
  calls: the decoder's, or else the quality estimator's (asked for a JPEG only) followed by
  that of the ICC lookup and parser.\<close>

definition jpeg_failures :: "env \<Rightarrow> pil_image \<Rightarrow> exn list" where
  "jpeg_failures env im =
     (if im_format im = PyStr ''JPEG''
      then (case computeJPEGQuality env im of Inl e \<Rightarrow> [e] | Inr q \<Rightarrow> [])
      else [])"

definition icc_failures :: "env \<Rightarrow> pil_image \<Rightarrow> exn list" where
  "icc_failures env im =
     (case getitem (im_info im) ''icc_profile'' of
        Inl e \<Rightarrow> [e]
      | Inr icc \<Rightarrow>
          (case ImageCmsProfile env icc of
             Inl e \<Rightarrow> [e]
           | Inr iccProfile \<Rightarrow>
               (case getProfileName iccProfile of
                  Inl e \<Rightarrow> [e]
                | Inr name \<Rightarrow>
                    (case getProfileDescription iccProfile of
                       Inl e \<Rightarrow> [e]
                     | Inr description \<Rightarrow> []))))"

definition stream_failures :: "env \<Rightarrow> bytes \<Rightarrow> exn list" where
  "stream_failures env stream =
     (case Image_open env stream of
        Inl e \<Rightarrow> [e]
      | Inr im \<Rightarrow> jpeg_failures env im @ icc_failures env im)"

text \<open>The warnings logged for one raw stream on a page: one for each failure, worded after
  the stage that failed.\<close>

definition stream_log :: "env \<Rightarrow> bytes \<Rightarrow> int \<Rightarrow> string list" where
  "stream_log env stream pageNo =
     (case Image_open env stream of
        Inl e \<Rightarrow> [stream_warning pageNo ''reading'' e]
      | Inr im \<Rightarrow>
          map (stream_warning pageNo ''estimating JPEG quality from'') (jpeg_failures env im)
          @ map (stream_warning pageNo ''extracting ICC profile properties from'')
              (icc_failures env im))"

text \<open>The properties the quality estimate and the ICC profile add to a dictionary.\<close>

definition jpeg_props :: "env \<Rightarrow> pil_image \<Rightarrow> (string \<times> scalar) list \<Rightarrow> (string \<times> scalar) list"
  where
  "jpeg_props env im props =
     (if im_format im = PyStr ''JPEG'' then fst (jpeg_try env im props) else props)"

definition icc_props :: "env \<Rightarrow> pil_image \<Rightarrow> (string \<times> scalar) list \<Rightarrow> (string \<times> scalar) list"
  where
  "icc_props env im props = fst (icc_try env im props)"

text \<open>The merge of the decoder's auxiliary metadata in the words of the specification:
  a byte-valued entry becomes the sentinel string, a pair named \<^verbatim>\<open>dpi\<close> or \<^verbatim>\<open>jfif_density\<close>
  is split in two, any other tuple is dropped, everything else is copied under its key;
  entries are merged in order, a later write replacing an earlier one.\<close>

fun spec_merge_entry :: "(string \<times> scalar) list \<Rightarrow> string \<times> pyval \<Rightarrow> (string \<times> scalar) list"
  where
  "spec_merge_entry props (key, PyBytes b) = setitem props key (PyStr ''bytestream'')"
| "spec_merge_entry props (key, PyTuple [x, y]) =
     (if key = ''dpi'' then setitem (setitem props ''ppi_x'' x) ''ppi_y'' y
      else if key = ''jfif_density''
        then setitem (setitem props ''jfif_density_x'' x) ''jfif_density_y'' y
      else props)"
| "spec_merge_entry props (key, PyTuple t) = props"
| "spec_merge_entry props (key, Scalar v) = setitem props key v"

definition spec_merge :: "(string \<times> scalar) list \<Rightarrow> (string \<times> pyval) list
    \<Rightarrow> (string \<times> scalar) list" where
  "spec_merge props info = foldl spec_merge_entry props info"

text \<open>Every tuple the decoder reports under \<^verbatim>\<open>dpi\<close> or \<^verbatim>\<open>jfif_density\<close> is a pair.\<close>

fun density_pair :: "string \<times> pyval \<Rightarrow> bool" where
  "density_pair (key, PyTuple t) =
     (if key = ''dpi'' \<or> key = ''jfif_density'' then length t = 2 else True)"
| "density_pair (key, value) = True"

definition density_tuples_are_pairs :: "(string \<times> pyval) list \<Rightarrow> bool" where
  "density_tuples_are_pairs info = list_all density_pair info"

text \<open>What the loop of the code does with one entry: a tuple named \<^verbatim>\<open>dpi\<close> or
  \<^verbatim>\<open>jfif_density\<close> is split on its first two elements, whatever its length, so it must have
  two elements at least.\<close>

fun density_ok :: "string \<times> pyval \<Rightarrow> bool" where
  "density_ok (key, PyTuple t) =
     (if key = ''dpi'' \<or> key = ''jfif_density'' then 2 \<le> length t else True)"
| "density_ok (key, value) = True"

fun merge_entry :: "(string \<times> scalar) list \<Rightarrow> string \<times> pyval \<Rightarrow> (string \<times> scalar) list"
  where
  "merge_entry props (key, PyBytes b) = setitem props key (PyStr ''bytestream'')"
| "merge_entry props (key, PyTuple t) =
     (if key = ''dpi'' then setitem (setitem props ''ppi_x'' (t ! 0)) ''ppi_y'' (t ! 1)
      else if key = ''jfif_density''
        then setitem (setitem props ''jfif_density_x'' (t ! 0)) ''jfif_density_y'' (t ! 1)
      else props)"
| "merge_entry props (key, Scalar v) = setitem props key v"

text \<open>The dictionary of stream properties of a decoded image whose mode is in the table
  and whose density tuples have two elements: the six decoded properties, the quality
  estimate, the decoder's metadata, the ICC profile.\<close>

definition stream_props :: "env \<Rightarrow> pil_image \<Rightarrow> (string \<times> scalar) list" where
  "stream_props env im =
     (case getBPC im of
        Inl e \<Rightarrow> []
      | Inr bpc \<Rightarrow>
          icc_props env im
            (foldl merge_entry (jpeg_props env im (decoded_props im bpc)) (im_info im)))"

text \<open>A raw stream whose node can be built: the element tree accepts the names
  \<^verbatim>\<open>exceptions\<close> and \<^verbatim>\<open>stream\<close>, the element of every failure can be built, and when the
  stream decodes, the mode is in the table, the density tuples have two elements at least,
  and the element of every property can be built.  The node of the stream then, and the
  warnings logged.\<close>

definition stream_ok :: "env \<Rightarrow> bytes \<Rightarrow> bool" where
  "stream_ok env stream =
     (tag_ok env ''exceptions'' \<and> tag_ok env ''stream'' \<and>
      list_all (exception_ok env) (stream_failures env stream) \<and>
      (case Image_open env stream of
         Inl e \<Rightarrow> True
       | Inr im \<Rightarrow>
           im_mode im \<in> set (map fst mode_to_bpp) \<and> list_all density_ok (im_info im) \<and>
           list_all (leaf_ok env) (stream_props env im)))"

definition stream_node :: "env \<Rightarrow> bytes \<Rightarrow> elt" where
  "stream_node env stream =
     Elt ''stream'' [] None
       (map property_leaf
          (case Image_open env stream of Inl e \<Rightarrow> [] | Inr im \<Rightarrow> stream_props env im)
        @ [Elt ''exceptions'' [] None (map exception_leaf (stream_failures env stream))])"

text \<open>The raw stream of an image: the one the document holds under the cross-reference
  that the tuple of the image starts with.\<close>

definition own_stream :: "document \<Rightarrow> scalar list \<Rightarrow> exn + bytes" where
  "own_stream doc img = bind_exn (py_int (str (img ! 0))) (xref_stream_raw doc)"

text \<open>An image whose entry can be built: the tuple has its nine fields, the elements of
  the seven properties read from it can be built, its raw stream can be fetched and the
  node of that stream can be built.  The entry of the image then, and the warnings logged.\<close>

definition image_ok :: "env \<Rightarrow> document \<Rightarrow> scalar list \<Rightarrow> bool" where
  "image_ok env doc img =
     (tag_ok env ''image'' \<and> tag_ok env ''dict'' \<and> 9 \<le> length img \<and>
      list_all (leaf_ok env) (dict_props img) \<and>
      (case own_stream doc img of Inl e \<Rightarrow> False | Inr stream \<Rightarrow> stream_ok env stream))"

definition image_node :: "env \<Rightarrow> document \<Rightarrow> scalar list \<Rightarrow> elt" where
  "image_node env doc img =
     Elt ''image'' [] None
       [Elt ''dict'' [] None (map property_leaf (dict_props img)),
        stream_node env (case own_stream doc img of Inl e \<Rightarrow> [] | Inr stream \<Rightarrow> stream)]"

definition image_log :: "env \<Rightarrow> document \<Rightarrow> int \<Rightarrow> scalar list \<Rightarrow> string list" where
  "image_log env doc pageNo img =
     (case own_stream doc img of Inl e \<Rightarrow> [] | Inr stream \<Rightarrow> stream_log env stream pageNo)"

text \<open>A page whose entry can be built: the element tree accepts the name \<^verbatim>\<open>page\<close> and the
  attribute \<^verbatim>\<open>number\<close>, the page lists its images, and the entry of each can be built.  The
  entry of the page under a page number then, and the warnings logged.\<close>

definition page_ok :: "env \<Rightarrow> document \<Rightarrow> page \<Rightarrow> bool" where
  "page_ok env doc page =
     (tag_ok env ''page'' \<and> attrib_raises env ''number'' = None \<and>
      (case get_images page of Inl e \<Rightarrow> False | Inr images \<Rightarrow> list_all (image_ok env doc) images))"

definition page_images :: "page \<Rightarrow> scalar list list" where
  "page_images page = (case get_images page of Inl e \<Rightarrow> [] | Inr images \<Rightarrow> images)"

definition page_node :: "env \<Rightarrow> document \<Rightarrow> int \<Rightarrow> page \<Rightarrow> elt" where
  "page_node env doc pageNo page =
     Elt ''page'' [(''number'', str_int pageNo)] None
       (map (image_node env doc) (page_images page))"

definition page_log :: "env \<Rightarrow> document \<Rightarrow> int \<Rightarrow> page \<Rightarrow> string list" where
  "page_log env doc pageNo page = concat (map (image_log env doc pageNo) (page_images page))"

text \<open>The entries of the pages numbered from a page number on, and the warnings logged.\<close>

fun page_nodes :: "env \<Rightarrow> document \<Rightarrow> int \<Rightarrow> page list \<Rightarrow> elt list" where
  "page_nodes env doc pageNo [] = []"
| "page_nodes env doc pageNo (page # rest) =
     page_node env doc pageNo page # page_nodes env doc (pageNo + 1) rest"

fun pages_log :: "env \<Rightarrow> document \<Rightarrow> int \<Rightarrow> page list \<Rightarrow> string list" where
  "pages_log env doc pageNo [] = []"
| "pages_log env doc pageNo (page # rest) =
     page_log env doc pageNo page @ pages_log env doc (pageNo + 1) rest"

text \<open>The text of the \<^verbatim>\<open>PageMode\<close> element.\<close>

definition page_mode_text :: "document \<Rightarrow> string" where
  "page_mode_text doc =
     (if fst (xref_get_key doc (pdf_catalog doc) ''PageMode'') = ''null'' then ''undefined''
      else snd (xref_get_key doc (pdf_catalog doc) ''PageMode''))"

text \<open>An open document whose report can be built: the element tree accepts the ten names
  of the report's own elements, the path, the metadata and the page mode are XML
  compatible, and the entry of every page can be built.  The report then.\<close>

definition report_names :: "string list" where
  "report_names =
     [''properties'', ''exceptions'', ''filePath'', ''fileSize'', ''openPassword'', ''meta'',
      ''PageMode'', ''signatureFlag'', ''pages'', ''noPages'']"

definition document_ok :: "env \<Rightarrow> string \<Rightarrow> document \<Rightarrow> bool" where
  "document_ok env PDF doc =
     (list_all (tag_ok env) report_names \<and> xml_compatible PDF \<and>
      list_all (leaf_ok env) (metadata doc) \<and> xml_compatible (page_mode_text doc) \<and>
      list_all (page_ok env doc) (pages doc))"

definition document_report :: "env \<Rightarrow> string \<Rightarrow> int \<Rightarrow> document \<Rightarrow> elt" where
  "document_report env PDF fileSize doc =
     Elt ''properties'' [] None
       [Elt ''filePath'' [] (Some PDF) [],
        Elt ''fileSize'' [] (Some (str_int fileSize)) [],
        Elt ''openPassword'' [] (Some ''False'') [],
        Elt ''meta'' [] None (map property_leaf (metadata doc)),
        Elt ''PageMode'' [] (Some (page_mode_text doc)) [],
        Elt ''signatureFlag'' [] (Some (str_int (get_sigflags doc))) [],
        Elt ''noPages'' [] (Some (str_int (page_count doc))) [],
        Elt ''pages'' [] None (page_nodes env doc 1 (pages doc)),
        Elt ''exceptions'' [] None []]"

section \<open>Example inputs\<close>

text \<open>An element tree that accepts the names made of ASCII letters, digits, underscores,
  hyphens and full stops that start with a letter or an underscore, all of them XML names,
  and rejects every other name with the message \<^verbatim>\<open>lxml\<close> gives.\<close>

definition ascii_letter :: "char \<Rightarrow> bool" where
  "ascii_letter c = ((65 \<le> (of_char c :: nat) \<and> (of_char c :: nat) \<le> 90)
     \<or> (97 \<le> (of_char c :: nat) \<and> (of_char c :: nat) \<le> 122))"

definition plain_name :: "string \<Rightarrow> bool" where
  "plain_name s =
     (case s of
        [] \<Rightarrow> False
      | c # cs \<Rightarrow>
          (ascii_letter c \<or> c = CHR ''_'') \<and>
          list_all (\<lambda>c. ascii_letter c \<or> is_digit c \<or> c = CHR ''_'' \<or> c = CHR ''-''
                          \<or> c = CHR ''.'') cs)"

definition example_Element_raises :: "string \<Rightarrow> exn option" where
  "example_Element_raises name =
     (if plain_name name then None else Some (ValueError (''Invalid tag name '' @ py_repr name)))"

definition example_attrib_raises :: "string \<Rightarrow> exn option" where
  "example_attrib_raises name =
     (if plain_name name then None
      else Some (ValueError (''Invalid attribute name '' @ py_repr name)))"

text \<open>A decoded RGB JPEG of 100 by 100 pixels, a one-page document that holds it under
  cross-reference 7, and the collaborators that serve them.\<close>

definition example_image :: pil_image where
  "example_image =
     \<lparr>im_format = PyStr ''JPEG'', im_size = (100, 100), im_mode = ''RGB'',
      im_getbands = [''R'', ''G'', ''B''],
      im_info = [(''jfif'', Scalar (PyInt 257)), (''dpi'', PyTuple [PyInt 72, PyInt 72]),
                 (''icc_profile'', PyBytes [1, 2])]\<rparr>"

definition example_document :: document where
  "example_document =
     \<lparr>authenticate = (\<lambda>password. Inr 1), page_count = 1,
      metadata = [(''title'', PyStr ''Scan''), (''author'', PyNone)], pdf_catalog = 1,
      xref_get_key = (\<lambda>xref key. (''null'', ''null'')), get_sigflags = - 1,
      pages = [\<lparr>get_images = Inr [[PyInt 7, PyInt 0, PyInt 100, PyInt 100, PyInt 8,
                  PyStr ''DeviceRGB'', PyStr [], PyStr ''Im0'', PyStr ''DCTDecode'']]\<rparr>],
      xref_stream_raw = (\<lambda>xref. if xref = 7 then Inr [255, 216] else Inl (Raised ''bad xref''))\<rparr>"

definition example_env :: env where
  "example_env =
     \<lparr>os_path_getsize = (\<lambda>path. Inr 2048),
      pymupdf_open = (\<lambda>path. Inr example_document),
      Image_open = (\<lambda>stream. if stream = [255, 216] then Inr example_image
                              else Inl (Raised ''cannot identify image file'')),
      computeJPEGQuality = (\<lambda>im. Inr (PyObj ''90.0'', PyObj ''1.5'', PyObj ''0.99'')),
      ImageCmsProfile = (\<lambda>icc. Inl (Raised ''cannot open profile from string'')),
      Element_raises = example_Element_raises,
      attrib_raises = example_attrib_raises\<rparr>"

text \<open>The report of this document: the node of the image's stream, the entry of the
  page, and the whole report.\<close>

definition example_stream_node :: elt where
  "example_stream_node =
     Elt ''stream'' [] None
       [Elt ''format'' [] (Some ''JPEG'') [],
        Elt ''width'' [] (Some ''100'') [],
        Elt ''height'' [] (Some ''100'') [],
        Elt ''mode'' [] (Some ''RGB'') [],
        Elt ''components'' [] (Some ''3'') [],
        Elt ''bpc'' [] (Some ''8'') [],
        Elt ''JPEGQuality'' [] (Some ''90.0'') [],
        Elt ''NSE_JPEGQuality'' [] (Some ''0.99'') [],
        Elt ''jfif'' [] (Some ''257'') [],
        Elt ''ppi_x'' [] (Some ''72'') [],
        Elt ''ppi_y'' [] (Some ''72'') [],
        Elt ''icc_profile'' [] (Some ''bytestream'') [],
        Elt ''exceptions'' [] None
          [Elt ''exception'' [] (Some ''cannot open profile from string'') []]]"

definition example_page_node :: elt where
  "example_page_node =
     Elt ''page'' [(''number'', ''1'')] None
       [Elt ''image'' [] None
          [Elt ''dict'' [] None
             [Elt ''xref'' [] (Some ''7'') [],
              Elt ''width'' [] (Some ''100'') [],
              Elt ''height'' [] (Some ''100'') [],
              Elt ''bpc'' [] (Some ''8'') [],
              Elt ''colorspace'' [] (Some ''DeviceRGB'') [],
              Elt ''altcolorspace'' [] (Some []) [],
              Elt ''filter'' [] (Some ''DCTDecode'') []],
           example_stream_node]]"

definition example_report :: elt where
  "example_report =
     Elt ''properties'' [] None
       [Elt ''filePath'' [] (Some ''scan.pdf'') [],
        Elt ''fileSize'' [] (Some ''2048'') [],
        Elt ''openPassword'' [] (Some ''False'') [],
        Elt ''meta'' [] None
          [Elt ''title'' [] (Some ''Scan'') [], Elt ''author'' [] (Some ''None'') []],
        Elt ''PageMode'' [] (Some ''undefined'') [],
        Elt ''signatureFlag'' [] (Some ''-1'') [],
        Elt ''noPages'' [] (Some ''1'') [],
        Elt ''pages'' [] None [example_page_node],
        Elt ''exceptions'' [] None []]"

text \<open>A document that rejects the probe credential.\<close>

definition locked_document :: document where
  "locked_document = example_document\<lparr>authenticate := (\<lambda>password. Inr 0)\<rparr>"

definition locked_env :: env where
  "locked_env = example_env\<lparr>pymupdf_open := (\<lambda>path. Inr locked_document)\<rparr>"

text \<open>Collaborators that cannot open the file.\<close>

definition unreadable_env :: env where
  "unreadable_env = example_env\<lparr>pymupdf_open := (\<lambda>path. Inl (Raised ''no objects found''))\<rparr>"

text \<open>A decoded PNG whose text chunks are named like the JPEG quality fields, and the
  collaborators that decode every stream to it.\<close>

definition png_image :: pil_image where
  "png_image =
     \<lparr>im_format = PyStr ''PNG'', im_size = (10, 10), im_mode = ''RGB'',
      im_getbands = [''R'', ''G'', ''B''],
      im_info = [(''JPEGQuality'', Scalar (PyStr ''90'')),
                 (''NSE_JPEGQuality'', Scalar (PyStr ''1''))]\<rparr>"

definition png_env :: env where
  "png_env = example_env\<lparr>Image_open := (\<lambda>stream. Inr png_image)\<rparr>"

definition png_stream_node :: elt where
  "png_stream_node =
     Elt ''stream'' [] None
       [Elt ''format'' [] (Some ''PNG'') [],
        Elt ''width'' [] (Some ''10'') [],
        Elt ''height'' [] (Some ''10'') [],
        Elt ''mode'' [] (Some ''RGB'') [],
        Elt ''components'' [] (Some ''3'') [],
        Elt ''bpc'' [] (Some ''8'') [],
        Elt ''JPEGQuality'' [] (Some ''90'') [],
        Elt ''NSE_JPEGQuality'' [] (Some ''1'') [],
        Elt ''exceptions'' [] None
          [Elt ''exception'' [] (Some (CHR 0x27 # ''icc_profile'' @ [CHR 0x27])) []]]"

text \<open>A document whose only image has the cross-reference 8, which the document cannot
  fetch; and a document of two pages, whose first page holds the JPEG and an image that
  does not decode, and whose second page holds the JPEG again.\<close>

definition dangling_document :: document where
  "dangling_document =
     example_document\<lparr>pages := [\<lparr>get_images = Inr [[PyInt 8, PyInt 0, PyInt 100, PyInt 100,
        PyInt 8, PyStr ''DeviceRGB'', PyStr [], PyStr ''Im0'', PyStr ''DCTDecode'']]\<rparr>]\<rparr>"

definition dangling_env :: env where
  "dangling_env = example_env\<lparr>pymupdf_open := (\<lambda>path. Inr dangling_document)\<rparr>"

definition two_page_document :: document where
  "two_page_document =
     example_document
       \<lparr>page_count := 2,
        pages :=
          [\<lparr>get_images = Inr
              [[PyInt 7, PyInt 0, PyInt 100, PyInt 100, PyInt 8, PyStr ''DeviceRGB'', PyStr [],
                PyStr ''Im0'', PyStr ''DCTDecode''],
               [PyInt 9, PyInt 0, PyInt 20, PyInt 20, PyInt 1, PyStr ''DeviceGray'', PyStr [],
                PyStr ''Im1'', PyStr ''CCITTFaxDecode'']]\<rparr>,
           \<lparr>get_images = Inr
              [[PyInt 7, PyInt 0, PyInt 100, PyInt 100, PyInt 8, PyStr ''DeviceRGB'', PyStr [],
                PyStr ''Im0'', PyStr ''DCTDecode'']]\<rparr>],
        xref_stream_raw := (\<lambda>xref. if xref = 7 then Inr [255, 216]
                                    else if xref = 9 then Inr [0]
                                    else Inl (Raised ''bad xref''))\<rparr>"

definition two_page_env :: env where
  "two_page_env = example_env\<lparr>pymupdf_open := (\<lambda>path. Inr two_page_document)\<rparr>"

text \<open>Collaborators whose quality estimator fails, and the stream node of the JPEG then.\<close>

definition unrated_env :: env where
  "unrated_env =
     example_env\<lparr>computeJPEGQuality := (\<lambda>im. Inl (Raised ''no quantization tables''))\<rparr>"

definition unrated_stream_node :: elt where
  "unrated_stream_node =
     Elt ''stream'' [] None
       [Elt ''format'' [] (Some ''JPEG'') [],
        Elt ''width'' [] (Some ''100'') [],
        Elt ''height'' [] (Some ''100'') [],
        Elt ''mode'' [] (Some ''RGB'') [],
        Elt ''components'' [] (Some ''3'') [],
        Elt ''bpc'' [] (Some ''8'') [],
        Elt ''jfif'' [] (Some ''257'') [],
        Elt ''ppi_x'' [] (Some ''72'') [],
        Elt ''ppi_y'' [] (Some ''72'') [],
        Elt ''icc_profile'' [] (Some ''bytestream'') [],
        Elt ''exceptions'' [] None
          [Elt ''exception'' [] (Some ''no quantization tables'') [],
           Elt ''exception'' [] (Some ''cannot open profile from string'') []]]"

text \<open>The report of the document of two pages.\<close>

definition undecoded_image_node :: elt where
  "undecoded_image_node =
     Elt ''image'' [] None
       [Elt ''dict'' [] None
          [Elt ''xref'' [] (Some ''9'') [],
           Elt ''width'' [] (Some ''20'') [],
           Elt ''height'' [] (Some ''20'') [],
           Elt ''bpc'' [] (Some ''1'') [],
           Elt ''colorspace'' [] (Some ''DeviceGray'') [],
           Elt ''altcolorspace'' [] (Some []) [],
           Elt ''filter'' [] (Some ''CCITTFaxDecode'') []],
        Elt ''stream'' [] None
          [Elt ''exceptions'' [] None
             [Elt ''exception'' [] (Some ''cannot identify image file'') []]]]"

definition two_page_report :: elt where
  "two_page_report =
     Elt ''properties'' [] None
       [Elt ''filePath'' [] (Some ''scan.pdf'') [],
        Elt ''fileSize'' [] (Some ''2048'') [],
        Elt ''openPassword'' [] (Some ''False'') [],
        Elt ''meta'' [] None
          [Elt ''title'' [] (Some ''Scan'') [], Elt ''author'' [] (Some ''None'') []],
        Elt ''PageMode'' [] (Some ''undefined'') [],
        Elt ''signatureFlag'' [] (Some ''-1'') [],
        Elt ''noPages'' [] (Some ''2'') [],
        Elt ''pages'' [] None
          [Elt ''page'' [(''number'', ''1'')] None
             (children example_page_node @ [undecoded_image_node]),
           Elt ''page'' [(''number'', ''2'')] None (children example_page_node)],
        Elt ''exceptions'' [] None []]"


section \<open>Basic facts\<close>

subsection \<open>Numerals\<close>

lemma of_char_digit_char: "d < 10 \<Longrightarrow> (of_char (digit_char d) :: nat) = 48 + d"
  by (simp add: digit_char_def)

lemma is_digit_digit_char: "d < 10 \<Longrightarrow> is_digit (digit_char d)"
  by (simp add: is_digit_def of_char_digit_char)

lemma digit_of_digit_char: "d < 10 \<Longrightarrow> digit_of (digit_char d) = d"
  by (simp add: digit_of_def of_char_digit_char)

lemma str_nat_digits: "c \<in> set (str_nat n) \<Longrightarrow> is_digit c"
proof (induction n rule: str_nat.induct)
  case (1 n)
  then show ?case
    by (subst (asm) (2) str_nat.simps) (auto simp: is_digit_digit_char split: if_splits)
qed

lemma str_nat_nonempty: "str_nat n \<noteq> []"
  by (subst str_nat.simps) simp

lemma str_nat_last_digit: "is_digit (last (str_nat n))"
  by (rule str_nat_digits [OF last_in_set [OF str_nat_nonempty]])

lemma is_digit_not_underscore: "is_digit c \<Longrightarrow> c \<noteq> CHR ''_''"
  by (auto simp: is_digit_def)

lemma digits_value_digits:
  "ds \<noteq> [] \<Longrightarrow> \<forall>c \<in> set ds. is_digit c \<Longrightarrow>
     digits_value acc ds = Some (foldl (\<lambda>a c. 10 * a + digit_of c) acc ds)"
  by (induction acc ds rule: digits_value.induct) (auto simp: is_digit_not_underscore)

lemma foldl_str_nat: "foldl (\<lambda>a c. 10 * a + digit_of c) 0 (str_nat n) = n"
proof (induction n rule: str_nat.induct)
  case (1 n)
  show ?case
  proof (cases "n < 10")
    case True
    then show ?thesis by (subst str_nat.simps) (simp add: digit_of_digit_char)
  next
    case False
    with 1 show ?thesis by (subst str_nat.simps) (simp add: digit_of_digit_char)
  qed
qed

lemma digits_value_str_nat: "digits_value 0 (str_nat n) = Some n"
  by (simp add: digits_value_digits str_nat_nonempty str_nat_digits foldl_str_nat)

lemma is_digit_not_space: "is_digit c \<Longrightarrow> \<not> int_isspace c"
  by (auto simp: is_digit_def int_isspace_def)

lemma int_strip_id:
  "s \<noteq> [] \<Longrightarrow> \<not> int_isspace (hd s) \<Longrightarrow> \<not> int_isspace (last s) \<Longrightarrow> int_strip s = s"
  by (cases s) (auto simp: int_strip_def hd_rev dropWhile_eq_self_iff  split: if_splits)

lemma py_int_str_int: "py_int (str_int i) = Inr i"
proof (cases "i < 0")
  case True
  let ?ds = "str_nat (nat (- i))"
  have "last (CHR ''-'' # ?ds) = last ?ds"
    by (simp add: str_nat_nonempty)
  moreover have "is_digit (last ?ds)"
    by (rule str_nat_last_digit)
  ultimately have "\<not> int_isspace (last (CHR ''-'' # ?ds))"
    by (simp add: is_digit_not_space)
  moreover have "\<not> int_isspace (hd (CHR ''-'' # ?ds))"
    by (simp add: int_isspace_def)
  ultimately have "int_strip (CHR ''-'' # ?ds) = CHR ''-'' # ?ds"
    by (intro int_strip_id) simp_all
  with True show ?thesis
    by (simp add: py_int_def str_int_def digits_value_str_nat)
next
  case False
  let ?ds = "str_nat (nat i)"
  obtain c cs where ds: "?ds = c # cs"
    using str_nat_nonempty [of "nat i"] by (cases ?ds) auto
  have c: "is_digit c"
    by (rule str_nat_digits [of _ "nat i"]) (simp add: ds)
  have "is_digit (last ?ds)"
    by (rule str_nat_last_digit)
  with c ds have "int_strip ?ds = ?ds"
    by (intro int_strip_id) (simp_all add: is_digit_not_space)
  moreover from c have "c \<noteq> CHR ''-''" "c \<noteq> CHR ''+''"
    by (auto simp: is_digit_def)
  moreover have "digits_value 0 (c # cs) = Some (nat i)"
    using digits_value_str_nat [of "nat i"] by (simp add: ds)
  ultimately show ?thesis
    using False by (simp add: py_int_def str_int_def ds)
qed

text \<open>A numeral is XML compatible.\<close>

lemma xml_char_digit: "is_digit c \<Longrightarrow> xml_char c"
  by (simp add: is_digit_def xml_char_def)

lemma xml_compatible_str_nat: "xml_compatible (str_nat n)"
  by (simp add: xml_compatible_def list_all_iff xml_char_digit str_nat_digits)

lemma xml_compatible_str_int: "xml_compatible (str_int i)"
  using xml_compatible_str_nat by (simp add: str_int_def xml_compatible_def xml_char_def)

subsection \<open>The table of modes, and dictionaries\<close>

lemma getBPC_in_table:
  "map_of mode_to_bpp (im_mode img) = Some bitsPerPixel \<Longrightarrow>
     getBPC img =
       Inr (if im_getbands img = [] then - 9999
            else bitsPerPixel div int (length (im_getbands img)))"
proof -
  assume a: "map_of mode_to_bpp (im_mode img) = Some bitsPerPixel"
  then have "0 \<le> bitsPerPixel"
    by (auto simp: mode_to_bpp_def split: if_splits)
  then have "int_truediv bitsPerPixel (int (length (im_getbands img))) =
      bitsPerPixel div int (length (im_getbands img))"
    by (cases "bitsPerPixel = 0") (simp_all add: int_truediv_def sgn_if)
  with a show ?thesis
    by (simp add: getBPC_def getitem_def bind_exn_def)
qed

lemma getBPC_not_in_table:
  "map_of mode_to_bpp (im_mode img) = None \<Longrightarrow> getBPC img = Inl (KeyError (im_mode img))"
  by (simp add: getBPC_def getitem_def bind_exn_def)

lemma getBPC_Inr: "(\<exists>bpc. getBPC im = Inr bpc) \<longleftrightarrow> im_mode im \<in> set (map fst mode_to_bpp)"
proof (cases "map_of mode_to_bpp (im_mode im)")
  case None
  then show ?thesis
    by (simp add: getBPC_not_in_table map_of_eq_None_iff)
next
  case (Some b)
  then have "im_mode im \<in> set (map fst mode_to_bpp)"
    by (metis map_of_eq_None_iff option.distinct(1) set_map)
  with Some show ?thesis
    by (simp add: getBPC_in_table)
qed

lemma keys_setitem:
  "map fst (setitem d k v) = (if k \<in> fst ` set d then map fst d else map fst d @ [k])"
  by (induction d) (fastforce simp: image_iff)+

lemma set_setitem: "fst ` set (setitem d k v) = insert k (fst ` set d)"
proof -
  have "set (map fst (setitem d k v)) = insert k (set (map fst d))"
    unfolding keys_setitem by auto
  then show ?thesis by simp
qed

lemma map_of_setitem: "map_of (setitem d k v) = (map_of d)(k \<mapsto> v)"
  by (induction d) auto

subsection \<open>Building elements\<close>

lemma Element_ok: "tag_ok env name \<Longrightarrow> Element env name = Inr (Elt name [] None [])"
  by (simp add: Element_def tag_ok_def)

lemma Element_not_ok: "\<not> tag_ok env name \<Longrightarrow> \<exists>err. Element env name = Inl err"
  by (auto simp: Element_def tag_ok_def)

lemma Element_Inr: "Element env name = Inr e \<longleftrightarrow> tag_ok env name \<and> e = Elt name [] None []"
  by (auto simp: Element_def tag_ok_def split: option.splits)

lemma set_text_Inr:
  "set_text e s = Inr r \<longleftrightarrow>
     xml_compatible s \<and> r = Elt (tag e) (attrib e) (Some s) (children e)"
  by (auto simp: set_text_def)

lemma leaf_Inr:
  "bind_exn (Element env key) (\<lambda>child. set_text child (str v)) = Inr child \<longleftrightarrow>
     leaf_ok env (key, v) \<and> child = property_leaf (key, v)"
proof (cases "tag_ok env key")
  case True
  then show ?thesis
    by (auto simp: Element_ok bind_exn_def set_text_def leaf_ok_def property_leaf_def)
next
  case False
  with Element_not_ok [OF False] show ?thesis
    by (auto simp: bind_exn_def leaf_ok_def)
qed

lemma items_loop_Inr:
  "items_loop env e d = Inr r \<longleftrightarrow>
     list_all (leaf_ok env) d \<and>
     r = Elt (tag e) (attrib e) (etext e) (children e @ map property_leaf d)"
proof (induction env e d rule: items_loop.induct)
  case (1 env elt)
  show ?case
    by (cases elt) auto
next
  case (2 env elt key "value" items)
  show ?case
  proof (cases "bind_exn (Element env key) (\<lambda>child. set_text child (str value))")
    case (Inl err)
    then have "\<not> leaf_ok env (key, value)"
      using leaf_Inr [of env key "value"] by auto
    with Inl show ?thesis
      by simp
  next
    case (Inr child)
    then have "leaf_ok env (key, value) \<and> child = property_leaf (key, value)"
      by (simp add: leaf_Inr)
    with Inr 2 [OF Inr] show ?thesis
      by (simp add: append_def)
  qed
qed

lemma dictionaryToElt_Inr:
  "dictionaryToElt env name d = Inr r \<longleftrightarrow>
     tag_ok env name \<and> list_all (leaf_ok env) d \<and> r = Elt name [] None (map property_leaf d)"
proof (cases "tag_ok env name")
  case True
  then show ?thesis
    by (auto simp: dictionaryToElt_def bind_exn_def items_loop_Inr Element_ok)
next
  case False
  with Element_not_ok [OF False] show ?thesis
    by (auto simp: dictionaryToElt_def bind_exn_def)
qed

lemma dictionaryToElt_ok:
  "tag_ok env name \<Longrightarrow> list_all (leaf_ok env) d \<Longrightarrow>
     dictionaryToElt env name d = Inr (Elt name [] None (map property_leaf d))"
  by (simp add: dictionaryToElt_Inr)

lemma SubElement_exception_Inr:
  "SubElement_exception env parent e = Inr r \<longleftrightarrow>
     exception_ok env e \<and>
     r = Elt (tag parent) (attrib parent) (etext parent) (children parent @ [exception_leaf e])"
proof (cases "tag_ok env ''exception''")
  case True
  then show ?thesis
    by (auto simp: SubElement_exception_def bind_exn_def exception_ok_def Element_ok
        set_text_def append_def exception_leaf_def)
next
  case False
  with Element_not_ok [OF False] show ?thesis
    by (auto simp: SubElement_exception_def bind_exn_def exception_ok_def)
qed

lemma SubElement_exception_ok:
  "exception_ok env e \<Longrightarrow>
     SubElement_exception env parent e =
       Inr (Elt (tag parent) (attrib parent) (etext parent)
              (children parent @ [exception_leaf e]))"
  by (simp add: SubElement_exception_Inr)

lemma SubElement_exception_not_ok:
  "\<not> exception_ok env e \<Longrightarrow> \<exists>err. SubElement_exception env parent e = Inl err"
  using SubElement_exception_Inr [of env parent e]
  by (cases "SubElement_exception env parent e") auto

subsection \<open>The stream of an image\<close>

lemma elt_children_nil [simp]: "Elt (tag e) (attrib e) (etext e) (children e) = e"
  by (cases e) simp

lemma stream_except_Inr:
  "stream_except env n stage exc e = (Inr r, lg) \<longleftrightarrow>
     exception_ok env e \<and>
     r = Elt (tag exc) (attrib exc) (etext exc) (children exc @ [exception_leaf e]) \<and>
     lg = [stream_warning n stage e]"
proof (cases "exception_ok env e")
  case True
  then show ?thesis
    by (auto simp: stream_except_def SubElement_exception_ok)
next
  case False
  with SubElement_exception_not_ok [OF False, of exc] show ?thesis
    by (auto simp: stream_except_def)
qed

lemma jpeg_quality_block_Inr:
  "jpeg_quality_block env im n props exc = (Inr (props', exc'), lg) \<longleftrightarrow>
     list_all (exception_ok env) (jpeg_failures env im) \<and>
     props' = jpeg_props env im props \<and>
     exc' = Elt (tag exc) (attrib exc) (etext exc)
              (children exc @ map exception_leaf (jpeg_failures env im)) \<and>
     lg = map (stream_warning n ''estimating JPEG quality from'') (jpeg_failures env im)"
proof (cases "im_format im = PyStr ''JPEG''")
  case False
  then show ?thesis
    by (auto simp: jpeg_quality_block_def jpeg_failures_def jpeg_props_def)
next
  case True
  show ?thesis
  proof (cases "computeJPEGQuality env im")
    case (Inr q)
    with True show ?thesis
      by (auto simp: jpeg_quality_block_def jpeg_failures_def jpeg_props_def jpeg_try_def
          split: prod.splits)
  next
    case (Inl e)
    then have body: "jpeg_try env im props = (props, Some e)"
      by (simp add: jpeg_try_def)
    show ?thesis
    proof (cases "stream_except env n ''estimating JPEG quality from'' exc e")
      case (Pair r lg')
      show ?thesis
      proof (cases r)
        case (Inl err)
        with Pair have "\<not> exception_ok env e"
          using stream_except_Inr [of env n "''estimating JPEG quality from''" exc e] by auto
        with True \<open>computeJPEGQuality env im = Inl e\<close> Pair Inl body show ?thesis
          by (simp add: jpeg_quality_block_def jpeg_failures_def)
      next
        case (Inr x)
        with Pair have "exception_ok env e \<and>
            x = Elt (tag exc) (attrib exc) (etext exc) (children exc @ [exception_leaf e]) \<and>
            lg' = [stream_warning n ''estimating JPEG quality from'' e]"
          by (simp add: stream_except_Inr)
        with True \<open>computeJPEGQuality env im = Inl e\<close> Pair Inr body show ?thesis
          by (auto simp: jpeg_quality_block_def jpeg_failures_def jpeg_props_def)
      qed
    qed
  qed
qed

lemma icc_try_failures:
  "snd (icc_try env im props) = (case icc_failures env im of [] \<Rightarrow> None | e # es \<Rightarrow> Some e)"
  "length (icc_failures env im) \<le> 1"
  by (auto simp: icc_try_def icc_failures_def Let_def split: sum.splits)

lemma icc_block_Inr:
  "icc_block env im n props exc = (Inr (props', exc'), lg) \<longleftrightarrow>
     list_all (exception_ok env) (icc_failures env im) \<and>
     props' = icc_props env im props \<and>
     exc' = Elt (tag exc) (attrib exc) (etext exc)
              (children exc @ map exception_leaf (icc_failures env im)) \<and>
     lg = map (stream_warning n ''extracting ICC profile properties from'') (icc_failures env im)"
proof (cases "icc_failures env im")
  case Nil
  with icc_try_failures(1) [of env im props]
  have "icc_try env im props = (icc_props env im props, None)"
    by (simp add: icc_props_def prod_eq_iff)
  with Nil show ?thesis
    by (auto simp: icc_block_def)
next
  case (Cons e es)
  with icc_try_failures(2) [of env im] have es: "es = []"
    by simp
  from Cons icc_try_failures(1) [of env im props]
  have body: "icc_try env im props = (icc_props env im props, Some e)"
    by (simp add: icc_props_def prod_eq_iff)
  show ?thesis
  proof (cases "stream_except env n ''extracting ICC profile properties from'' exc e")
    case (Pair r lg')
    show ?thesis
    proof (cases r)
      case (Inl err)
      with Pair have "\<not> exception_ok env e"
        using stream_except_Inr [of env n "''extracting ICC profile properties from''" exc e]
        by auto
      with Cons es Pair Inl body show ?thesis
        by (simp add: icc_block_def)
    next
      case (Inr x)
      with Pair have "exception_ok env e \<and>
          x = Elt (tag exc) (attrib exc) (etext exc) (children exc @ [exception_leaf e]) \<and>
          lg' = [stream_warning n ''extracting ICC profile properties from'' e]"
        by (simp add: stream_except_Inr)
      with Cons es Pair Inr body show ?thesis
        by (auto simp: icc_block_def)
    qed
  qed
qed

lemma merge_info_eq:
  "merge_info props info =
     (if list_all density_ok info then Inr (foldl merge_entry props info) else Inl IndexError)"
  by (induction props info rule: merge_info.induct)
    (auto simp: tuple_item_def bind_exn_def)

lemma spec_merge_entry_other_tuple:
  "key \<noteq> ''dpi'' \<Longrightarrow> key \<noteq> ''jfif_density'' \<Longrightarrow> spec_merge_entry props (key, PyTuple t) = props"
  by (cases "(props, (key, PyTuple t))" rule: spec_merge_entry.cases) auto

lemma merge_entry_pair:
  "density_pair entry \<Longrightarrow> merge_entry props entry = spec_merge_entry props entry"
proof (cases entry)
  case (Pair key v)
  assume a: "density_pair entry"
  show ?thesis
  proof (cases v)
    case (PyTuple t)
    show ?thesis
    proof (cases "key = ''dpi'' \<or> key = ''jfif_density''")
      case True
      with a Pair PyTuple have "length t = 2"
        by auto
      then obtain x y where "t = [x, y]"
        by (cases t; cases "tl t") auto
      with Pair PyTuple show ?thesis
        by simp
    next
      case False
      with Pair PyTuple show ?thesis
        by (simp add: spec_merge_entry_other_tuple)
    qed
  qed (simp_all add: Pair)
qed

lemma foldl_merge_entry_pairs:
  "density_tuples_are_pairs info \<Longrightarrow> foldl merge_entry props info = spec_merge props info"
  unfolding spec_merge_def density_tuples_are_pairs_def
  by (induction info arbitrary: props) (simp_all add: merge_entry_pair)

lemma density_pair_ok: "density_pair entry \<Longrightarrow> density_ok entry"
  by (cases entry; cases "snd entry") (auto split: if_splits)

lemma pairs_density_ok: "density_tuples_are_pairs info \<Longrightarrow> list_all density_ok info"
  by (simp add: density_tuples_are_pairs_def list_all_iff density_pair_ok)

lemma getImageStreamProperties_undecoded:
  assumes "Image_open env stream = Inl e"
  shows "getImageStreamProperties env stream n = (Inr node, lg) \<longleftrightarrow>
     tag_ok env ''exceptions'' \<and> tag_ok env ''stream'' \<and> exception_ok env e \<and>
     node = Elt ''stream'' [] None [Elt ''exceptions'' [] None [exception_leaf e]] \<and>
     lg = [stream_warning n ''reading'' e]"
proof (cases "tag_ok env ''exceptions''")
  case False
  with Element_not_ok [OF False] show ?thesis
    by (auto simp: getImageStreamProperties_def)
next
  case True
  note exceptions = this
  show ?thesis
  proof (cases "exception_ok env e")
    case False
    with SubElement_exception_not_ok [OF False, of "Elt ''exceptions'' [] None []"] exceptions
    show ?thesis
      by (auto simp: getImageStreamProperties_def assms Element_ok bind_exn_def)
  next
    case True
    note ok = this
    show ?thesis
    proof (cases "tag_ok env ''stream''")
      case True
      with exceptions ok show ?thesis
        by (auto simp: getImageStreamProperties_def assms Element_ok bind_exn_def
            SubElement_exception_ok dictionaryToElt_ok append_def)
    next
      case False
      then have "\<exists>err. dictionaryToElt env ''stream'' [] = Inl err"
        using dictionaryToElt_Inr [of env "''stream''" "[]"]
        by (cases "dictionaryToElt env ''stream'' []") auto
      with False exceptions ok show ?thesis
        by (auto simp: getImageStreamProperties_def assms Element_ok bind_exn_def
            SubElement_exception_ok)
    qed
  qed
qed

lemma getImageStreamProperties_decoded:
  assumes "Image_open env stream = Inr im"
  shows "getImageStreamProperties env stream n = (Inr node, lg) \<longleftrightarrow>
     stream_ok env stream \<and> node = stream_node env stream \<and> lg = stream_log env stream n"
proof (cases "tag_ok env ''exceptions''")
  case False
  with Element_not_ok [OF False] show ?thesis
    by (auto simp: getImageStreamProperties_def stream_ok_def)
next
  case True
  note exceptions = this
  show ?thesis
  proof (cases "getBPC im")
    case (Inl e)
    then have "im_mode im \<notin> set (map fst mode_to_bpp)"
      using getBPC_Inr [of im] by auto
    with Inl exceptions show ?thesis
      by (auto simp: getImageStreamProperties_def assms Element_ok stream_ok_def)
  next
    case (Inr bpc)
    then have mode: "im_mode im \<in> set (map fst mode_to_bpp)"
      using getBPC_Inr [of im] by auto
    let ?exc = "Elt ''exceptions'' [] None []"
    let ?props = "decoded_props im bpc"
    have run: "getImageStreamProperties env stream n =
        (case jpeg_quality_block env im n ?props ?exc of
           (Inl err, log1) \<Rightarrow> (Inl err, log1)
         | (Inr (propsStream, exceptionsStreamElt), log1) \<Rightarrow>
             (case merge_info propsStream (im_info im) of
                Inl e \<Rightarrow> (Inl e, log1)
              | Inr propsStream \<Rightarrow>
                  (case icc_block env im n propsStream exceptionsStreamElt of
                     (Inl err, log2) \<Rightarrow> (Inl err, log1 @ log2)
                   | (Inr (propsStream, exceptionsStreamElt), log2) \<Rightarrow>
                       (case dictionaryToElt env ''stream'' propsStream of
                          Inl err \<Rightarrow> (Inl err, log1 @ log2)
                        | Inr propsStreamElt \<Rightarrow>
                            (Inr (append propsStreamElt exceptionsStreamElt), log1 @ log2)))))"
      by (simp add: getImageStreamProperties_def assms Element_ok exceptions Inr Let_def
          decoded_props_def)
    have props: "stream_props env im =
        icc_props env im (foldl merge_entry (jpeg_props env im ?props) (im_info im))"
      by (simp add: stream_props_def Inr)
    show ?thesis
    proof (cases "jpeg_quality_block env im n ?props ?exc")
      case (Pair r1 log1)
      show ?thesis
      proof (cases r1)
        case (Inl err)
        with Pair have "\<not> list_all (exception_ok env) (jpeg_failures env im)"
          using jpeg_quality_block_Inr [of env im n ?props ?exc] by auto
        with Pair Inl show ?thesis
          by (auto simp: run stream_ok_def stream_failures_def assms)
      next
        case (Inr pe)
        obtain props1 exc1 where pe: "pe = (props1, exc1)"
          by (cases pe)
        from Pair Inr pe have j: "list_all (exception_ok env) (jpeg_failures env im)"
          "props1 = jpeg_props env im ?props"
          "exc1 = Elt ''exceptions'' [] None (map exception_leaf (jpeg_failures env im))"
          "log1 = map (stream_warning n ''estimating JPEG quality from'') (jpeg_failures env im)"
          by (simp_all add: jpeg_quality_block_Inr)
        show ?thesis
        proof (cases "list_all density_ok (im_info im)")
          case False
          with Pair Inr pe show ?thesis
            by (auto simp: run merge_info_eq stream_ok_def assms)
        next
          case True
          note density = this
          let ?merged = "foldl merge_entry props1 (im_info im)"
          show ?thesis
          proof (cases "icc_block env im n ?merged exc1")
            case (Pair r2 log2)
            note icc = this
            show ?thesis
            proof (cases r2)
              case (Inl err)
              with icc have "\<not> list_all (exception_ok env) (icc_failures env im)"
                using icc_block_Inr [of env im n ?merged exc1] by auto
              with \<open>jpeg_quality_block env im n ?props ?exc = (r1, log1)\<close> Inr pe density icc Inl
              show ?thesis
                by (auto simp: run merge_info_eq stream_ok_def stream_failures_def assms)
            next
              case (Inr pe2)
              obtain props2 exc2 where pe2: "pe2 = (props2, exc2)"
                by (cases pe2)
              from icc Inr pe2 j(3) have i: "list_all (exception_ok env) (icc_failures env im)"
                "props2 = icc_props env im ?merged"
                "exc2 = Elt ''exceptions'' [] None
                   (map exception_leaf (jpeg_failures env im @ icc_failures env im))"
                "log2 = map (stream_warning n ''extracting ICC profile properties from'')
                   (icc_failures env im)"
                by (simp_all add: icc_block_Inr)
              have p2: "props2 = stream_props env im"
                by (simp add: i(2) j(2) props)
              have final: "getImageStreamProperties env stream n =
                  (case dictionaryToElt env ''stream'' (stream_props env im) of
                     Inl err \<Rightarrow> (Inl err, log1 @ log2)
                   | Inr propsStreamElt \<Rightarrow> (Inr (append propsStreamElt exc2), log1 @ log2))"
                using \<open>jpeg_quality_block env im n ?props ?exc = (r1, log1)\<close>
                  \<open>r1 = Inr pe\<close> pe density icc Inr pe2 p2
                by (simp add: run merge_info_eq)
              have ok: "stream_ok env stream \<longleftrightarrow>
                  tag_ok env ''stream'' \<and> list_all (leaf_ok env) (stream_props env im)"
                using exceptions mode density j(1) i(1)
                by (auto simp: stream_ok_def stream_failures_def assms)
              have node: "stream_node env stream =
                  Elt ''stream'' [] None (map property_leaf (stream_props env im) @ [exc2])"
                by (simp add: stream_node_def stream_failures_def assms i(3))
              have lg: "stream_log env stream n = log1 @ log2"
                by (simp add: stream_log_def assms j(4) i(4))
              show ?thesis
              proof (cases "dictionaryToElt env ''stream'' (stream_props env im)")
                case (Inl err)
                then have "\<not> (tag_ok env ''stream'' \<and>
                    list_all (leaf_ok env) (stream_props env im))"
                  using dictionaryToElt_Inr [of env "''stream''" "stream_props env im"] by auto
                with Inl show ?thesis
                  unfolding final ok by auto
              next
                case (Inr d)
                then have "tag_ok env ''stream'' \<and> list_all (leaf_ok env) (stream_props env im)
                    \<and> d = Elt ''stream'' [] None (map property_leaf (stream_props env im))"
                  by (simp add: dictionaryToElt_Inr)
                with Inr show ?thesis
                  unfolding final ok node lg by (auto simp: append_def)
              qed
            qed
          qed
        qed
      qed
    qed
  qed
qed

lemma getImageStreamProperties_Inr:
  "getImageStreamProperties env stream n = (Inr node, lg) \<longleftrightarrow>
     stream_ok env stream \<and> node = stream_node env stream \<and> lg = stream_log env stream n"
proof (cases "Image_open env stream")
  case (Inl e)
  show ?thesis
    unfolding getImageStreamProperties_undecoded [OF Inl]
    by (auto simp: stream_ok_def stream_node_def stream_log_def stream_failures_def Inl)
next
  case (Inr im)
  then show ?thesis
    by (rule getImageStreamProperties_decoded)
qed

lemma stream_ok_run:
  "stream_ok env stream \<Longrightarrow>
     getImageStreamProperties env stream n = (Inr (stream_node env stream), stream_log env stream n)"
  by (simp add: getImageStreamProperties_Inr)

lemma stream_not_ok_run:
  "\<not> stream_ok env stream \<Longrightarrow> \<exists>err lg. getImageStreamProperties env stream n = (Inl err, lg)"
  using getImageStreamProperties_Inr [of env stream n]
  by (cases "getImageStreamProperties env stream n"; cases "fst (getImageStreamProperties env stream n)")
    auto

subsection \<open>Images and pages\<close>

lemma getImageDictProperties_short:
  "length img < 9 \<Longrightarrow> getImageDictProperties env img n = Inl IndexError"
  by (simp add: getImageDictProperties_def tuple_item_def bind_exn_def)

lemma getImageDictProperties_long:
  "9 \<le> length img \<Longrightarrow>
     getImageDictProperties env img n = dictionaryToElt env ''dict'' (dict_props img)"
  by (auto simp: getImageDictProperties_def tuple_item_def bind_exn_def dict_props_def)

lemma getImageDictProperties_Inr:
  "getImageDictProperties env img n = Inr d \<longleftrightarrow>
     9 \<le> length img \<and> tag_ok env ''dict'' \<and> list_all (leaf_ok env) (dict_props img) \<and>
     d = Elt ''dict'' [] None (map property_leaf (dict_props img))"
proof (cases "9 \<le> length img")
  case True
  then show ?thesis
    by (simp add: getImageDictProperties_long dictionaryToElt_Inr)
next
  case False
  then show ?thesis
    by (simp add: getImageDictProperties_short)
qed

lemma find_xref:
  "find_child (Elt ''dict'' [] None (map property_leaf (dict_props img))) ''xref'' =
     Some (Elt ''xref'' [] (Some (str (img ! 0))) [])"
  by (simp add: find_child_def dict_props_def property_leaf_def)

lemma getImageProperties_Inr:
  "getImageProperties env doc img n = (Inr node, lg) \<longleftrightarrow>
     image_ok env doc img \<and> node = image_node env doc img \<and> lg = image_log env doc n img"
proof (cases "tag_ok env ''image''")
  case False
  with Element_not_ok [OF False] show ?thesis
    by (auto simp: getImageProperties_def image_ok_def)
next
  case True
  note image = this
  show ?thesis
  proof (cases "getImageDictProperties env img n")
    case (Inl e)
    then have "\<not> (9 \<le> length img \<and> tag_ok env ''dict'' \<and>
        list_all (leaf_ok env) (dict_props img))"
      using getImageDictProperties_Inr [of env img n] by auto
    with Inl image show ?thesis
      by (auto simp: getImageProperties_def Element_ok image_ok_def)
  next
    case (Inr d)
    then have d: "9 \<le> length img" "tag_ok env ''dict''"
      "list_all (leaf_ok env) (dict_props img)"
      "d = Elt ''dict'' [] None (map property_leaf (dict_props img))"
      by (simp_all add: getImageDictProperties_Inr)
    have run: "getImageProperties env doc img n =
        (case own_stream doc img of
           Inl e \<Rightarrow> (Inl e, [])
         | Inr stream \<Rightarrow>
             (case getImageStreamProperties env stream n of
                (Inl e, lg) \<Rightarrow> (Inl e, lg)
              | (Inr propsStreamElt, lg) \<Rightarrow>
                  (Inr (Elt ''image'' [] None [d, propsStreamElt]), lg)))"
      unfolding getImageProperties_def
      by (simp add: Element_ok image Inr d(4) find_xref bind_exn_def own_stream_def append_def
          Let_def split: sum.splits prod.splits)
    show ?thesis
    proof (cases "own_stream doc img")
      case (Inl e)
      then show ?thesis
        by (simp add: run image_ok_def)
    next
      case (Inr stream)
      show ?thesis
      proof (cases "stream_ok env stream")
        case True
        with Inr image d show ?thesis
          by (auto simp: run stream_ok_run image_ok_def image_node_def image_log_def)
      next
        case False
        with stream_not_ok_run [OF False, of n] Inr show ?thesis
          by (auto simp: run image_ok_def)
      qed
    qed
  qed
qed

lemma images_loop_Inr:
  "images_loop env doc n pageElt images = (Inr r, lg) \<longleftrightarrow>
     list_all (image_ok env doc) images \<and>
     r = Elt (tag pageElt) (attrib pageElt) (etext pageElt)
           (children pageElt @ map (image_node env doc) images) \<and>
     lg = concat (map (image_log env doc n) images)"
proof (induction images arbitrary: pageElt r lg)
  case Nil
  show ?case
    by auto
next
  case (Cons img images)
  show ?case
  proof (cases "getImageProperties env doc img n")
    case (Pair r1 lg1)
    show ?thesis
    proof (cases r1)
      case (Inl e)
      with Pair have "\<not> image_ok env doc img"
        using getImageProperties_Inr [of env doc img n] by auto
      with Pair Inl show ?thesis
        by simp
    next
      case (Inr imageElt)
      with Pair have i: "image_ok env doc img" "imageElt = image_node env doc img"
        "lg1 = image_log env doc n img"
        by (simp_all add: getImageProperties_Inr)
      show ?thesis
      proof (cases "images_loop env doc n (append pageElt imageElt) images")
        case rest: (Pair r2 lg2)
        with Cons [of "append pageElt imageElt" r "drop (length lg1) lg"] Pair Inr i
        show ?thesis
          by (auto simp: append_def)
      qed
    qed
  qed
qed

lemma set_attrib_number:
  "set_attrib env e ''number'' (str_int n) = Inr r \<longleftrightarrow>
     attrib_raises env ''number'' = None \<and>
     r = Elt (tag e) (setitem (attrib e) ''number'' (str_int n)) (etext e) (children e)"
  by (auto simp: set_attrib_def xml_compatible_str_int split: option.splits)

lemma getPageProperties_Inr:
  "getPageProperties env doc page n = (Inr node, lg) \<longleftrightarrow>
     page_ok env doc page \<and> node = page_node env doc n page \<and> lg = page_log env doc n page"
proof (cases "tag_ok env ''page''")
  case False
  with Element_not_ok [OF False] show ?thesis
    by (auto simp: getPageProperties_def bind_exn_def page_ok_def)
next
  case True
  note page = this
  show ?thesis
  proof (cases "attrib_raises env ''number''")
    case (Some err)
    with page show ?thesis
      by (simp add: getPageProperties_def bind_exn_def page_ok_def Element_ok set_attrib_def)
  next
    case None
    show ?thesis
    proof (cases "get_images page")
      case (Inl e)
      with page None show ?thesis
        by (simp add: getPageProperties_def bind_exn_def page_ok_def Element_ok set_attrib_def
            xml_compatible_str_int)
    next
      case (Inr images)
      with page None show ?thesis
        by (auto simp: getPageProperties_def bind_exn_def page_ok_def Element_ok set_attrib_def
            xml_compatible_str_int images_loop_Inr page_node_def page_log_def page_images_def)
    qed
  qed
qed

lemma pages_loop_Inr:
  "pages_loop env doc n pagesElt ps = (Inr r, lg) \<longleftrightarrow>
     list_all (page_ok env doc) ps \<and>
     r = Elt (tag pagesElt) (attrib pagesElt) (etext pagesElt)
           (children pagesElt @ page_nodes env doc n ps) \<and>
     lg = pages_log env doc n ps"
proof (induction ps arbitrary: n pagesElt r lg)
  case Nil
  show ?case
    by auto
next
  case (Cons page rest)
  show ?case
  proof (cases "getPageProperties env doc page n")
    case (Pair r1 lg1)
    show ?thesis
    proof (cases r1)
      case (Inl e)
      with Pair have "\<not> page_ok env doc page"
        using getPageProperties_Inr [of env doc page n] by auto
      with Pair Inl show ?thesis
        by simp
    next
      case (Inr pageElt)
      with Pair have i: "page_ok env doc page" "pageElt = page_node env doc n page"
        "lg1 = page_log env doc n page"
        by (simp_all add: getPageProperties_Inr)
      show ?thesis
      proof (cases "pages_loop env doc (n + 1) (append pagesElt pageElt) rest")
        case rest: (Pair r2 lg2)
        with Cons [of "n + 1" "append pagesElt pageElt" r "drop (length lg1) lg"] Pair Inr i
        show ?thesis
          by (auto simp: append_def)
      qed
    qed
  qed
qed

lemma length_page_nodes: "length (page_nodes env doc n ps) = length ps"
  by (induction ps arbitrary: n) simp_all

lemma nth_page_nodes:
  "i < length ps \<Longrightarrow> page_nodes env doc n ps ! i = page_node env doc (n + int i) (ps ! i)"
proof (induction ps arbitrary: n i)
  case Nil
  then show ?case by simp
next
  case (Cons p ps)
  show ?case
  proof (cases i)
    case 0
    then show ?thesis by simp
  next
    case (Suc j)
    with Cons.prems have "j < length ps"
      by simp
    from Cons.IH [OF this, of "n + 1"] Suc show ?thesis
      by (simp add: add.assoc)
  qed
qed

subsection \<open>The document\<close>

lemma xml_compatible_flags: "xml_compatible ''True''" "xml_compatible ''False''"
  "xml_compatible ''undefined''"
  by (simp_all add: xml_compatible_def xml_char_def)

lemma getProperties_head_not_ok:
  assumes "\<not> (list_all (tag_ok env)
      [''properties'', ''exceptions'', ''filePath'', ''fileSize'', ''openPassword''] \<and>
      xml_compatible PDF)"
  shows "\<exists>err. getProperties env PDF = (Inl err, [])"
proof -
  from assms consider "\<not> tag_ok env ''properties''"
    | "tag_ok env ''properties''" "\<not> tag_ok env ''exceptions''"
    | "tag_ok env ''properties''" "tag_ok env ''exceptions''" "\<not> tag_ok env ''filePath''"
    | "tag_ok env ''properties''" "tag_ok env ''exceptions''" "tag_ok env ''filePath''"
      "\<not> xml_compatible PDF"
    | "tag_ok env ''properties''" "tag_ok env ''exceptions''" "tag_ok env ''filePath''"
      "xml_compatible PDF" "\<not> tag_ok env ''fileSize''"
    | "tag_ok env ''properties''" "tag_ok env ''exceptions''" "tag_ok env ''filePath''"
      "xml_compatible PDF" "tag_ok env ''fileSize''" "\<not> tag_ok env ''openPassword''"
    by auto
  then show ?thesis
  proof cases
    case 1
    with Element_not_ok [OF 1] show ?thesis
      by (auto simp: getProperties_def bind_exn_def)
  next
    case 2
    with Element_not_ok [OF 2(2)] show ?thesis
      by (auto simp: getProperties_def bind_exn_def Element_ok)
  next
    case 3
    with Element_not_ok [OF 3(3)] show ?thesis
      by (auto simp: getProperties_def bind_exn_def Element_ok)
  next
    case 4
    then show ?thesis
      by (auto simp: getProperties_def bind_exn_def Element_ok set_text_def)
  next
    case 5
    with Element_not_ok [OF 5(5)] show ?thesis
      by (auto simp: getProperties_def bind_exn_def Element_ok set_text_def)
  next
    case 6
    with Element_not_ok [OF 6(6)] show ?thesis
      by (auto simp: getProperties_def bind_exn_def Element_ok set_text_def
          xml_compatible_str_int split: sum.splits)
  qed
qed

lemma getProperties_open_failed:
  assumes "os_path_getsize env PDF = Inr fileSize"
    and "pymupdf_open env PDF = Inl e \<or>
      (\<exists>doc. pymupdf_open env PDF = Inr doc \<and> authenticate doc ''whatever'' = Inl e)"
  shows "getProperties env PDF = (Inr report, lg) \<longleftrightarrow>
     list_all (tag_ok env)
       [''properties'', ''exceptions'', ''filePath'', ''fileSize'', ''openPassword''] \<and>
     xml_compatible PDF \<and> exception_ok env e \<and>
     report = Elt ''properties'' [] None
        [Elt ''filePath'' [] (Some PDF) [],
         Elt ''fileSize'' [] (Some (str_int fileSize)) [],
         Elt ''exceptions'' [] None [exception_leaf e]] \<and>
     lg = [''while opening PDF: '' @ exn_str e]"
proof (cases "list_all (tag_ok env)
      [''properties'', ''exceptions'', ''filePath'', ''fileSize'', ''openPassword''] \<and>
      xml_compatible PDF")
  case False
  with getProperties_head_not_ok [OF False] show ?thesis
    by auto
next
  case True
  have body: "bind_exn (pymupdf_open env PDF) (\<lambda>doc.
      bind_exn (authenticate doc ''whatever'') (\<lambda>rc. f doc rc)) = Inl e" for f :: "document \<Rightarrow> int \<Rightarrow> exn + document \<times> int \<times> elt"
    using assms(2) by (auto simp: bind_exn_def)
  show ?thesis
  proof (cases "exception_ok env e")
    case False
    with SubElement_exception_not_ok [OF False, of "Elt ''exceptions'' [] None []"] True
    show ?thesis
      unfolding getProperties_def body
      by (auto simp: bind_exn_def Element_ok set_text_def xml_compatible_str_int assms(1))
  next
    case ok: True
    with True show ?thesis
      unfolding getProperties_def body
      by (auto simp: bind_exn_def Element_ok set_text_def xml_compatible_str_int assms(1)
          SubElement_exception_ok append_def)
  qed
qed

lemma getProperties_locked:
  assumes "os_path_getsize env PDF = Inr fileSize" and "pymupdf_open env PDF = Inr doc"
    and "authenticate doc ''whatever'' = Inr 0"
  shows "getProperties env PDF = (Inr report, lg) \<longleftrightarrow>
     list_all (tag_ok env)
       [''properties'', ''exceptions'', ''filePath'', ''fileSize'', ''openPassword''] \<and>
     xml_compatible PDF \<and>
     report = Elt ''properties'' [] None
        [Elt ''filePath'' [] (Some PDF) [],
         Elt ''fileSize'' [] (Some (str_int fileSize)) [],
         Elt ''openPassword'' [] (Some ''True'') []] \<and>
     lg = [''PDF has open password'']"
proof (cases "list_all (tag_ok env)
      [''properties'', ''exceptions'', ''filePath'', ''fileSize'', ''openPassword''] \<and>
      xml_compatible PDF")
  case False
  with getProperties_head_not_ok [OF False] show ?thesis
    by auto
next
  case True
  then show ?thesis
    by (auto simp: getProperties_def bind_exn_def Element_ok set_text_def
        xml_compatible_str_int xml_compatible_flags assms append_def)
qed

lemma page_mode_set_text:
  "(if fst (xref_get_key doc (pdf_catalog doc) ''PageMode'') = ''null''
    then set_text e ''undefined''
    else set_text e (snd (xref_get_key doc (pdf_catalog doc) ''PageMode''))) =
   set_text e (page_mode_text doc)"
  by (simp add: page_mode_text_def)

lemma dictionaryToElt_not_ok:
  "\<not> (tag_ok env name \<and> list_all (leaf_ok env) d) \<Longrightarrow> \<exists>err. dictionaryToElt env name d = Inl err"
  using dictionaryToElt_Inr [of env name d] by (cases "dictionaryToElt env name d") auto

lemma getProperties_opened:
  assumes "os_path_getsize env PDF = Inr fileSize" and "pymupdf_open env PDF = Inr doc"
    and "authenticate doc ''whatever'' = Inr rc" and "rc \<noteq> 0"
  shows "getProperties env PDF = (Inr report, lg) \<longleftrightarrow>
     document_ok env PDF doc \<and> report = document_report env PDF fileSize doc \<and>
     lg = pages_log env doc 1 (pages doc)"
proof (cases "list_all (tag_ok env)
      [''properties'', ''exceptions'', ''filePath'', ''fileSize'', ''openPassword''] \<and>
      xml_compatible PDF")
  case False
  with getProperties_head_not_ok [OF False] show ?thesis
    by (auto simp: document_ok_def report_names_def)
next
  case True
  note head = this
  note defs = getProperties_def bind_exn_def Element_ok set_text_def xml_compatible_str_int
    xml_compatible_flags assms append_def Let_def page_mode_set_text
  consider
      (meta) "\<not> (tag_ok env ''meta'' \<and> list_all (leaf_ok env) (metadata doc))"
    | (PageMode) "tag_ok env ''meta''" "list_all (leaf_ok env) (metadata doc)"
        "\<not> tag_ok env ''PageMode''"
    | (mode_text) "tag_ok env ''meta''" "list_all (leaf_ok env) (metadata doc)"
        "tag_ok env ''PageMode''" "\<not> xml_compatible (page_mode_text doc)"
    | (signatureFlag) "tag_ok env ''meta''" "list_all (leaf_ok env) (metadata doc)"
        "tag_ok env ''PageMode''" "xml_compatible (page_mode_text doc)"
        "\<not> tag_ok env ''signatureFlag''"
    | (pages) "tag_ok env ''meta''" "list_all (leaf_ok env) (metadata doc)"
        "tag_ok env ''PageMode''" "xml_compatible (page_mode_text doc)"
        "tag_ok env ''signatureFlag''" "\<not> tag_ok env ''pages''"
    | (ok) "tag_ok env ''meta''" "list_all (leaf_ok env) (metadata doc)"
        "tag_ok env ''PageMode''" "xml_compatible (page_mode_text doc)"
        "tag_ok env ''signatureFlag''" "tag_ok env ''pages''"
    by auto
  then show ?thesis
  proof cases
    case meta
    with dictionaryToElt_not_ok [OF meta] head show ?thesis
      by (auto simp: defs document_ok_def report_names_def)
  next
    case PageMode
    with Element_not_ok [OF PageMode(3)] head show ?thesis
      by (auto simp: defs dictionaryToElt_ok document_ok_def report_names_def)
  next
    case mode_text
    with head show ?thesis
      by (auto simp: defs dictionaryToElt_ok document_ok_def report_names_def)
  next
    case signatureFlag
    with Element_not_ok [OF signatureFlag(5)] head show ?thesis
      by (auto simp: defs dictionaryToElt_ok document_ok_def report_names_def)
  next
    case pages
    with Element_not_ok [OF pages(6)] head show ?thesis
      by (auto simp: defs dictionaryToElt_ok document_ok_def report_names_def)
  next
    case ok
    let ?loop = "pages_loop env doc 1 (Elt ''pages'' [] None []) (pages doc)"
    have run: "getProperties env PDF =
        (case ?loop of
           (Inl e, lg) \<Rightarrow> (Inl e, lg)
         | (Inr pagesElt, lg) \<Rightarrow>
             (case Element env ''noPages'' of
                Inl e \<Rightarrow> (Inl e, lg)
              | Inr noPagesElt \<Rightarrow>
                  (Inr (Elt ''properties'' [] None
                     [Elt ''filePath'' [] (Some PDF) [],
                      Elt ''fileSize'' [] (Some (str_int fileSize)) [],
                      Elt ''openPassword'' [] (Some ''False'') [],
                      Elt ''meta'' [] None (map property_leaf (metadata doc)),
                      Elt ''PageMode'' [] (Some (page_mode_text doc)) [],
                      Elt ''signatureFlag'' [] (Some (str_int (get_sigflags doc))) [],
                      Elt (tag noPagesElt) (attrib noPagesElt) (Some (str_int (page_count doc)))
                        (children noPagesElt),
                      pagesElt,
                      Elt ''exceptions'' [] None []]), lg)))"
      using head ok by (simp add: defs dictionaryToElt_ok split: sum.splits prod.splits)
    show ?thesis
    proof (cases ?loop)
      case (Pair r lg')
      show ?thesis
      proof (cases r)
        case (Inl e)
        with Pair have "\<not> list_all (page_ok env doc) (pages doc)"
          using pages_loop_Inr [of env doc 1 "Elt ''pages'' [] None []" "pages doc"] by auto
        with Pair Inl show ?thesis
          by (simp add: run document_ok_def)
      next
        case (Inr pagesElt)
        with Pair have p: "list_all (page_ok env doc) (pages doc)"
          "pagesElt = Elt ''pages'' [] None (page_nodes env doc 1 (pages doc))"
          "lg' = pages_log env doc 1 (pages doc)"
          by (simp_all add: pages_loop_Inr)
        show ?thesis
        proof (cases "tag_ok env ''noPages''")
          case False
          with Element_not_ok [OF False] Pair Inr show ?thesis
            by (auto simp: run document_ok_def report_names_def)
        next
          case True
          with Pair Inr p head ok show ?thesis
            by (auto simp: run Element_ok document_ok_def report_names_def document_report_def)
        qed
      qed
    qed
  qed
qed

lemma document_ok_run:
  assumes "os_path_getsize env PDF = Inr fileSize" and "pymupdf_open env PDF = Inr doc"
    and "authenticate doc ''whatever'' = Inr rc" and "rc \<noteq> 0"
    and "document_ok env PDF doc"
  shows "getProperties env PDF =
     (Inr (document_report env PDF fileSize doc), pages_log env doc 1 (pages doc))"
  using assms(5) by (simp add: getProperties_opened [OF assms(1-4)])

lemma getProperties_returned:
  assumes "os_path_getsize env PDF = Inr fileSize" and "pymupdf_open env PDF = Inr doc"
    and "authenticate doc ''whatever'' = Inr rc" and "rc \<noteq> 0"
    and "fst (getProperties env PDF) = Inr report"
  shows "document_ok env PDF doc" and "report = document_report env PDF fileSize doc"
    and "snd (getProperties env PDF) = pages_log env doc 1 (pages doc)"
proof -
  from assms(5) have "getProperties env PDF = (Inr report, snd (getProperties env PDF))"
    by (simp add: prod_eq_iff)
  then have "document_ok env PDF doc \<and> report = document_report env PDF fileSize doc \<and>
      snd (getProperties env PDF) = pages_log env doc 1 (pages doc)"
    by (simp only: getProperties_opened [OF assms(1-4)])
  then show "document_ok env PDF doc" and "report = document_report env PDF fileSize doc"
    and "snd (getProperties env PDF) = pages_log env doc 1 (pages doc)"
    by simp_all
qed

subsection \<open>The example documents\<close>

lemma example_run: "fst (getProperties example_env ''scan.pdf'') = Inr example_report"
  by code_simp

lemma two_page_run: "fst (getProperties two_page_env ''scan.pdf'') = Inr two_page_report"
  by code_simp

lemma example_hyps:
  "os_path_getsize example_env ''scan.pdf'' = Inr 2048"
  "pymupdf_open example_env ''scan.pdf'' = Inr example_document"
  "authenticate example_document ''whatever'' = Inr 1"
  by (simp_all add: example_env_def example_document_def)

lemma two_page_hyps:
  "os_path_getsize two_page_env ''scan.pdf'' = Inr 2048"
  "pymupdf_open two_page_env ''scan.pdf'' = Inr two_page_document"
  "authenticate two_page_document ''whatever'' = Inr 1"
  "page_count two_page_document = int (length (pages two_page_document))"
  by (simp_all add: two_page_env_def two_page_document_def example_env_def example_document_def)

section \<open>Bits per component (C2)\<close>

text \<open>
  C2.  For a decoded image whose mode is a key of the table, \<open>getBPC\<close> returns the floor of
  the mode's bits per pixel divided by the component count, and the sentinel \<open>-9999\<close> when
  the component count is zero (lemma \<open>getBPC_in_table\<close>).  For a mode that is not in the
  table the claim promises the sentinel as well; the code raises \<^verbatim>\<open>KeyError\<close> at the table
  lookup instead, before the test that guards the sentinel is reached.  The image below has
  the mode \<^verbatim>\<open>LA\<close> (grey with alpha, two bands).
\<close>

theorem getBPC_unknown_mode_raises:
  "getBPC \<lparr>im_format = PyStr ''JPEG2000'', im_size = (100, 100), im_mode = ''LA'',
      im_getbands = [''L'', ''A''], im_info = []\<rparr> = Inl (KeyError ''LA'')"
  by (simp add: getBPC_def getitem_def bind_exn_def mode_to_bpp_def)

section \<open>The signature flag (C10)\<close>

text \<open>
  C10.  In every report of a document that opens and needs no password, there is exactly
  one \<^verbatim>\<open>signatureFlag\<close> element among the children of the report; its text is the decimal
  rendering of the integer \<^verbatim>\<open>get_sigflags()\<close> returned, whatever its sign: \<open>str_int\<close> writes a
  minus sign for a negative value, then the digits, and reading the text back as a base-10
  integer gives the same integer.  No value is left out or replaced by a marker.
\<close>

theorem signature_flag_rendered:
  assumes "os_path_getsize env PDF = Inr fileSize" and "pymupdf_open env PDF = Inr doc"
    and "authenticate doc ''whatever'' = Inr rc" and "rc \<noteq> 0"
    and "fst (getProperties env PDF) = Inr report"
  shows "filter (\<lambda>c. tag c = ''signatureFlag'') (children report) =
           [Elt ''signatureFlag'' [] (Some (str_int (get_sigflags doc))) []] \<and>
         str_int (get_sigflags doc) =
           (if get_sigflags doc < 0 then ''-'' else []) @ str_nat (nat \<bar>get_sigflags doc\<bar>) \<and>
         (\<forall>c \<in> set (str_nat (nat \<bar>get_sigflags doc\<bar>)). is_digit c) \<and>
         py_int (str_int (get_sigflags doc)) = Inr (get_sigflags doc)"
proof -
  have "report = document_report env PDF fileSize doc"
    by (rule getProperties_returned(2) [OF assms])
  then have "filter (\<lambda>c. tag c = ''signatureFlag'') (children report) =
           [Elt ''signatureFlag'' [] (Some (str_int (get_sigflags doc))) []]"
    by (simp add: document_report_def)
  moreover have "str_int (get_sigflags doc) =
           (if get_sigflags doc < 0 then ''-'' else []) @ str_nat (nat \<bar>get_sigflags doc\<bar>)"
    by (simp add: str_int_def abs_if)
  moreover have "\<forall>c \<in> set (str_nat (nat \<bar>get_sigflags doc\<bar>)). is_digit c"
    by (simp add: str_nat_digits)
  moreover have "py_int (str_int (get_sigflags doc)) = Inr (get_sigflags doc)"
    by (rule py_int_str_int)
  ultimately show ?thesis
    by (intro conjI)
qed

theorem signature_flag_rendered_witness:
  "os_path_getsize example_env ''scan.pdf'' = Inr 2048 \<and>
   pymupdf_open example_env ''scan.pdf'' = Inr example_document \<and>
   authenticate example_document ''whatever'' = Inr 1 \<and>
   (1::int) \<noteq> 0 \<and>
   fst (getProperties example_env ''scan.pdf'') = Inr example_report \<and>
   get_sigflags example_document = - 1 \<and>
   filter (\<lambda>c. tag c = ''signatureFlag'') (children example_report) =
     [Elt ''signatureFlag'' [] (Some ''-1'') []] \<and>
   py_int ''-1'' = Inr (- 1)"
proof -
  have h4: "(1::int) \<noteq> 0"
    by simp
  have flag: "get_sigflags example_document = - 1"
    by (simp add: example_document_def)
  have rendering: "str_int (- 1) = ''-1''"
    by code_simp
  note r = signature_flag_rendered [OF example_hyps(1-3) h4 example_run]
  from r have "filter (\<lambda>c. tag c = ''signatureFlag'') (children example_report) =
     [Elt ''signatureFlag'' [] (Some ''-1'') []]"
    unfolding flag rendering by (rule conjunct1)
  moreover from r have "py_int ''-1'' = Inr (- 1)"
    unfolding flag rendering by (elim conjE)
  ultimately show ?thesis
    using example_hyps(1-3) example_run h4 flag by simp
qed

section \<open>Pages and images of the report (C9)\<close>

text \<open>
  C9.  For a document that opens without a password, whose page count is the number of
  pages that iterating the document yields, every report \<open>getProperties\<close> returns has a
  \<^verbatim>\<open>noPages\<close> field equal to the number of \<^verbatim>\<open>page\<close> entries; the entries follow the
  document's pages in order and are numbered 1, 2, 3, ... by position; and the entry of a
  page holds one \<^verbatim>\<open>image\<close> entry for each tuple \<^verbatim>\<open>get_images\<close> lists for that page, in the
  order of the list, whose \<^verbatim>\<open>dict\<close> node is read from that tuple.
\<close>

theorem report_pages_and_images:
  assumes "os_path_getsize env PDF = Inr fileSize" and "pymupdf_open env PDF = Inr doc"
    and "authenticate doc ''whatever'' = Inr rc" and "rc \<noteq> 0"
    and "fst (getProperties env PDF) = Inr report"
    and "page_count doc = int (length (pages doc))"
  shows "\<exists>pes.
     children report ! 6 = Elt ''noPages'' [] (Some (str_int (int (length pes)))) [] \<and>
     children report ! 7 = Elt ''pages'' [] None pes \<and>
     length pes = length (pages doc) \<and>
     (\<forall>i<length pes. \<exists>imgs ies.
        get_images (pages doc ! i) = Inr imgs \<and>
        pes ! i = Elt ''page'' [(''number'', str_int (int i + 1))] None ies \<and>
        length ies = length imgs \<and>
        (\<forall>j<length ies. \<exists>s.
           ies ! j = Elt ''image'' [] None
             [Elt ''dict'' [] None (map property_leaf (dict_props (imgs ! j))), s]))"
proof -
  let ?pes = "page_nodes env doc 1 (pages doc)"
  have report: "report = document_report env PDF fileSize doc"
    by (rule getProperties_returned(2) [OF assms(1-5)])
  have "document_ok env PDF doc"
    by (rule getProperties_returned(1) [OF assms(1-5)])
  then have ok: "list_all (page_ok env doc) (pages doc)"
    by (simp add: document_ok_def)
  have len: "length ?pes = length (pages doc)"
    by (rule length_page_nodes)
  have "\<exists>imgs ies.
        get_images (pages doc ! i) = Inr imgs \<and>
        ?pes ! i = Elt ''page'' [(''number'', str_int (int i + 1))] None ies \<and>
        length ies = length imgs \<and>
        (\<forall>j<length ies. \<exists>s.
           ies ! j = Elt ''image'' [] None
             [Elt ''dict'' [] None (map property_leaf (dict_props (imgs ! j))), s])"
    if "i < length ?pes" for i
  proof -
    from that len have i: "i < length (pages doc)"
      by simp
    with ok have "page_ok env doc (pages doc ! i)"
      by (simp add: list_all_length)
    then obtain imgs where imgs: "get_images (pages doc ! i) = Inr imgs"
      by (cases "get_images (pages doc ! i)") (simp_all add: page_ok_def)
    let ?ies = "map (image_node env doc) imgs"
    have "?pes ! i = Elt ''page'' [(''number'', str_int (int i + 1))] None ?ies"
      by (simp add: nth_page_nodes [OF i] page_node_def page_images_def imgs add.commute)
    moreover have "\<forall>j<length ?ies. \<exists>s.
           ?ies ! j = Elt ''image'' [] None
             [Elt ''dict'' [] None (map property_leaf (dict_props (imgs ! j))), s]"
      by (simp add: image_node_def)
    ultimately show ?thesis
      using imgs by (intro exI [of _ imgs] exI [of _ ?ies]) simp
  qed
  with len report assms(6) show ?thesis
    by (intro exI [of _ ?pes]) (simp add: document_report_def)
qed

text \<open>The report of the document of two pages: the first page holds the images of the
  cross-references 7 and 9, in this order, the second page the image of the cross-reference
  7.\<close>

lemma two_page_entries:
  "map (\<lambda>pe. (attrib pe, map (\<lambda>ie. hd (children (hd (children ie)))) (children pe)))
     (children (children two_page_report ! 7)) =
   [([(''number'', ''1'')],
     [Elt ''xref'' [] (Some ''7'') [], Elt ''xref'' [] (Some ''9'') []]),
    ([(''number'', ''2'')], [Elt ''xref'' [] (Some ''7'') []])]"
  by (simp add: two_page_report_def example_page_node_def undecoded_image_node_def)

theorem report_pages_and_images_witness:
  "os_path_getsize two_page_env ''scan.pdf'' = Inr 2048 \<and>
   pymupdf_open two_page_env ''scan.pdf'' = Inr two_page_document \<and>
   authenticate two_page_document ''whatever'' = Inr 1 \<and>
   (1::int) \<noteq> 0 \<and>
   fst (getProperties two_page_env ''scan.pdf'') = Inr two_page_report \<and>
   page_count two_page_document = int (length (pages two_page_document)) \<and>
   length (pages two_page_document) = 2 \<and>
   map (\<lambda>pe. (attrib pe, map (\<lambda>ie. hd (children (hd (children ie)))) (children pe)))
     (children (children two_page_report ! 7)) =
   [([(''number'', ''1'')],
     [Elt ''xref'' [] (Some ''7'') [], Elt ''xref'' [] (Some ''9'') []]),
    ([(''number'', ''2'')], [Elt ''xref'' [] (Some ''7'') []])] \<and>
   (\<exists>pes.
     children two_page_report ! 6 = Elt ''noPages'' [] (Some (str_int (int (length pes)))) [] \<and>
     children two_page_report ! 7 = Elt ''pages'' [] None pes \<and>
     length pes = length (pages two_page_document) \<and>
     (\<forall>i<length pes. \<exists>imgs ies.
        get_images (pages two_page_document ! i) = Inr imgs \<and>
        pes ! i = Elt ''page'' [(''number'', str_int (int i + 1))] None ies \<and>
        length ies = length imgs \<and>
        (\<forall>j<length ies. \<exists>s.
           ies ! j = Elt ''image'' [] None
             [Elt ''dict'' [] None (map property_leaf (dict_props (imgs ! j))), s])))"
proof -
  have h4: "(1::int) \<noteq> 0"
    by simp
  have two: "length (pages two_page_document) = 2"
    by (simp add: two_page_document_def)
  note r = report_pages_and_images [OF two_page_hyps(1-3) h4 two_page_run two_page_hyps(4)]
  show ?thesis
    by (rule conjI two_page_hyps two_page_run h4 two two_page_entries r)+
qed


end
